theory Spec2Isabelle
  imports Complex_Main
begin

section \<open>Python values\<close>

text \<open>
  The program is one Python class, \<open>FeedbackJSONSyncAI\<close>, whose methods work on
  dynamically typed records: dictionaries decoded from JSON or CSV text. The embedding
  keeps the dynamic typing. A Python float is the rational number it denotes, or one
  of the three special values; the sign of a zero is not represented. A string is a
  list of 8-bit characters, read as the code points 0 to 255. A dictionary is an
  association list in insertion order.
\<close>

datatype pyfloat = Fin rat | PosInf | NegInf | NaN

datatype pyval =
    VNone
  | VBool bool
  | VInt int
  | VFloat pyfloat
  | VStr string
  | VList "pyval list"
  | VDict "(string \<times> pyval) list"

text \<open>
  Exceptions are values. Only a \<open>ValueError\<close> carries its message, because
  \<open>process_data\<close> returns \<open>str(e)\<close> for that class alone; every other
  exception leaves \<open>process_data\<close> uncaught.
\<close>

datatype exn =
    ValueError string
  | TypeError
  | AttributeError
  | KeyError
  | OverflowError

definition bindE :: "exn + 'a \<Rightarrow> ('a \<Rightarrow> exn + 'b) \<Rightarrow> exn + 'b" where
  "bindE m f = (case m of Inl e \<Rightarrow> Inl e | Inr x \<Rightarrow> f x)"

section \<open>String methods\<close>

text \<open>\<open>str.isspace\<close> on the code points below 256.\<close>

definition py_isspace :: "char \<Rightarrow> bool" where
  "py_isspace c =
     (let n = (of_char c :: nat)
      in (9 \<le> n \<and> n \<le> 13) \<or> (28 \<le> n \<and> n \<le> 32) \<or> n = 133 \<or> n = 160)"

text \<open>\<open>str.lower\<close>: the letters A to Z and the Latin-1 capitals move up by 32.\<close>

definition py_lower_char :: "char \<Rightarrow> char" where
  "py_lower_char c =
     (let n = (of_char c :: nat)
      in if (65 \<le> n \<and> n \<le> 90) \<or> (192 \<le> n \<and> n \<le> 222 \<and> n \<noteq> 215)
         then char_of (n + 32) else c)"

definition py_lower :: "string \<Rightarrow> string" where
  "py_lower s = map py_lower_char s"

text \<open>
  \<open>str.split()\<close> with no argument: the maximal runs of characters that are not
  white space, in order. \<open>cur\<close> is the run being read.
\<close>

fun split_ws :: "string \<Rightarrow> string \<Rightarrow> string list" where
  "split_ws cur [] = (if cur = [] then [] else [cur])"
| "split_ws cur (c # cs) =
     (if py_isspace c
      then (if cur = [] then split_ws [] cs else cur # split_ws [] cs)
      else split_ws (cur @ [c]) cs)"

definition py_split :: "string \<Rightarrow> string list" where
  "py_split s = split_ws [] s"

definition py_strip :: "string \<Rightarrow> string" where
  "py_strip s = rev (dropWhile py_isspace (rev (dropWhile py_isspace s)))"

text \<open>\<open>s.split('\n')\<close>: the pieces between line feeds, empty ones included.\<close>

fun split_on :: "char \<Rightarrow> string \<Rightarrow> string \<Rightarrow> string list" where
  "split_on sep cur [] = [cur]"
| "split_on sep cur (c # cs) =
     (if c = sep then cur # split_on sep [] cs else split_on sep (cur @ [c]) cs)"

definition split_lines :: "string \<Rightarrow> string list" where
  "split_lines s = split_on (CHR 0x0A) [] s"

definition startswith :: "string \<Rightarrow> string \<Rightarrow> bool" where
  "startswith s p = (take (length p) s = p)"

text \<open>\<open>sep.join(xs)\<close>.\<close>

fun join :: "string \<Rightarrow> string list \<Rightarrow> string" where
  "join sep [] = []"
| "join sep [x] = x"
| "join sep (x # y # ys) = x @ sep @ join sep (y # ys)"

text \<open>\<open>timestamp.replace('Z', '+00:00')\<close>.\<close>

definition replace_Z :: "string \<Rightarrow> string" where
  "replace_Z s = concat (map (\<lambda>c. if c = CHR ''Z'' then ''+00:00'' else [c]) s)"

text \<open>
  \<open>re.match(r'^[a-z]{2}$', s)\<close> on a string: two lower-case ASCII letters, and
  \<open>$\<close> also matches just before one final line feed.
\<close>

definition is_az :: "char \<Rightarrow> bool" where
  "is_az c = (let n = (of_char c :: nat) in 97 \<le> n \<and> n \<le> 122)"

definition match_iso639 :: "string \<Rightarrow> bool" where
  "match_iso639 s =
     (case s of
        [a, b] \<Rightarrow> is_az a \<and> is_az b
      | [a, b, c] \<Rightarrow> is_az a \<and> is_az b \<and> c = CHR 0x0A
      | _ \<Rightarrow> False)"

text \<open>\<open>str(n)\<close> for an integer.\<close>

definition digit_char :: "nat \<Rightarrow> char" where
  "digit_char d = char_of (48 + d)"

fun str_nat :: "nat \<Rightarrow> string" where
  "str_nat n = (if n < 10 then [digit_char n] else str_nat (n div 10) @ [digit_char (n mod 10)])"

definition str_int :: "int \<Rightarrow> string" where
  "str_int i = (if i < 0 then CHR ''-'' # str_nat (nat (- i)) else str_nat (nat i))"

section \<open>Float arithmetic\<close>

text \<open>
  Binary64 arithmetic, exactly: \<open>b64 n d\<close> is the double nearest to the quotient
  \<open>n / d\<close> of two integers (\<open>d\<close> positive), ties going to the even significand,
  with 53 bits of precision above \<open>2 ^ -1022\<close> and the fixed spacing of the
  subnormal numbers below. Python's \<open>a / b\<close> on integers is this rounding of the
  exact quotient.
\<close>

function lg_up :: "nat \<Rightarrow> nat \<Rightarrow> nat" where
  "lg_up a b = (if 0 < b \<and> 2 * b \<le> a then Suc (lg_up a (2 * b)) else 0)"
  by pat_completeness auto
termination
  by (relation "measure (\<lambda>(a, b). a - b)") auto

function lg_down :: "nat \<Rightarrow> nat \<Rightarrow> nat" where
  "lg_down a b = (if 0 < a \<and> a < b then Suc (lg_down (2 * a) b) else 0)"
  by pat_completeness auto
termination
  by (relation "measure (\<lambda>(a, b). b - a)") auto

text \<open>The binary exponent of \<open>a / b\<close>: the \<open>e\<close> with \<open>2 ^ e \<le> a / b < 2 ^ (e + 1)\<close>.\<close>

definition binexp :: "nat \<Rightarrow> nat \<Rightarrow> int" where
  "binexp a b = (if b \<le> a then int (lg_up a b) else - int (lg_down a b))"

text \<open>The integer nearest to \<open>n / d\<close>, a tie going to the even one.\<close>

definition rhe_div :: "int \<Rightarrow> int \<Rightarrow> int" where
  "rhe_div n d =
     (let q = n div d; r = n mod d
      in if 2 * r < d then q else if d < 2 * r then q + 1
         else if even q then q else q + 1)"

definition b64 :: "int \<Rightarrow> int \<Rightarrow> rat" where
  "b64 n d =
     (if n = 0 then 0
      else let e = max (binexp (nat \<bar>n\<bar>) (nat d)) (- 1022); s = 52 - e
           in if 0 \<le> s then of_int (rhe_div (n * 2 ^ nat s) d) / 2 ^ nat s
              else of_int (rhe_div n (d * 2 ^ nat (- s))) * 2 ^ nat (- s))"

definition py_truediv :: "int \<Rightarrow> int \<Rightarrow> pyfloat" where
  "py_truediv a b = Fin (b64 a b)"

text \<open>
  \<open>round(x, 2)\<close>: the exact value of the double is rounded to two decimals, a tie
  going to the even digit, and the decimal is read back as the nearest double.
\<close>

definition rhe :: "rat \<Rightarrow> int" where
  "rhe x =
     (let f = \<lfloor>x\<rfloor>; d = x - of_int f
      in if d < 1 / 2 then f else if 1 / 2 < d then f + 1
         else if even f then f else f + 1)"

text \<open>\<open>dec2 h\<close> is the double written \<open>h / 100\<close>, for example \<open>dec2 14\<close> is 0.14.\<close>

definition dec2 :: "int \<Rightarrow> rat" where
  "dec2 h = b64 h 100"

fun py_round2 :: "pyfloat \<Rightarrow> pyfloat" where
  "py_round2 (Fin x) = Fin (dec2 (rhe (100 * x)))"
| "py_round2 f = f"

section \<open>The sentiment scorer\<close>

definition positive_words :: "string list" where
  "positive_words =
     [''good'', ''excellent'', ''great'', ''happy'', ''love'', ''positive'', ''satisfied'']"

definition negative_words :: "string list" where
  "negative_words =
     [''bad'', ''poor'', ''terrible'', ''unhappy'', ''hate'', ''negative'', ''dissatisfied'']"

definition required_fields :: "string list" where
  "required_fields = [''feedback_id'', ''language'', ''feedback_text'', ''timestamp'']"

text \<open>
  \<open>calculate_sentiment_score\<close>. Each count is a sum over the lexicon: one for every
  lexicon word that is among the tokens of the lower-cased text.
\<close>

definition calculate_sentiment_score :: "string \<Rightarrow> pyfloat \<times> nat \<times> nat \<times> nat" where
  "calculate_sentiment_score text =
     (let lower_text = py_lower text;
          positive_count =
            length (filter (\<lambda>word. word \<in> set (py_split lower_text)) positive_words);
          negative_count =
            length (filter (\<lambda>word. word \<in> set (py_split lower_text)) negative_words);
          total_words = length (py_split lower_text);
          sentiment_score =
            (if total_words > 0
             then py_truediv (int positive_count - int negative_count) (int total_words)
             else Fin 0)
      in (py_round2 sentiment_score, positive_count, negative_count, total_words))"

section \<open>The Python library, as far as the program calls it\<close>

text \<open>
  The parsers, printers and the clock conversions of the standard library are
  parameters of the model: a \<open>pylib\<close> holds one function for each library call of
  the source. The theorems below hold for every such library; a concrete one,
  \<open>py_lib\<close>, is defined further down for running the program on inputs.

  \<^item> \<open>json_loads\<close> is \<open>json.loads\<close>; \<open>None\<close> stands for \<open>JSONDecodeError\<close>.
  \<^item> \<open>json_dumps\<close> is \<open>json.dumps(v, indent=2)\<close>.
  \<^item> \<open>csv_DictReader\<close> is the iteration of \<open>csv.DictReader\<close> over the lines: the
    rows it yields, each cell a string or \<open>None\<close> for a cell the line does not have,
    and the message of the \<open>csv.Error\<close> that ends the iteration, if one does. A
    row's surplus cells, which the reader stores under the key \<open>None\<close>, are left
    out: no statement of the program reads that key.
  \<^item> \<open>float_of_str\<close> is \<open>float\<close> on a string; \<open>Inl\<close> holds the message of its
    \<open>ValueError\<close>.
  \<^item> \<open>str_float\<close> is \<open>str\<close> of a float, \<open>repr_val\<close> is \<open>repr\<close>.
  \<^item> \<open>fromisoformat\<close> is \<open>datetime.fromisoformat\<close>, \<open>None\<close> for its
    \<open>ValueError\<close>; \<open>astimezone_utc\<close> is \<open>dt.astimezone(timezone.utc)\<close>, which
    reads the host's local time zone when \<open>dt\<close> has no offset; \<open>isoformat\<close> is
    \<open>dt.isoformat()\<close>.
\<close>

record datetime =
  dt_year :: nat
  dt_month :: nat
  dt_day :: nat
  dt_hour :: nat
  dt_minute :: nat
  dt_second :: nat
  dt_microsecond :: nat
  dt_utcoffset :: "int option"

record pylib =
  json_loads :: "string \<Rightarrow> pyval option"
  json_dumps :: "pyval \<Rightarrow> string"
  csv_DictReader :: "string list \<Rightarrow> (string \<times> string option) list list \<times> string option"
  float_of_str :: "string \<Rightarrow> string + pyfloat"
  str_float :: "pyfloat \<Rightarrow> string"
  repr_val :: "pyval \<Rightarrow> string"
  fromisoformat :: "string \<Rightarrow> datetime option"
  astimezone_utc :: "datetime \<Rightarrow> exn + datetime"
  isoformat :: "datetime \<Rightarrow> string"

section \<open>Operations on dynamically typed values\<close>

text \<open>Truth value testing.\<close>

fun py_truthy :: "pyval \<Rightarrow> bool" where
  "py_truthy VNone = False"
| "py_truthy (VBool b) = b"
| "py_truthy (VInt i) = (i \<noteq> 0)"
| "py_truthy (VFloat f) = (f \<noteq> Fin 0)"
| "py_truthy (VStr s) = (s \<noteq> [])"
| "py_truthy (VList xs) = (xs \<noteq> [])"
| "py_truthy (VDict kvs) = (kvs \<noteq> [])"

definition is_substring :: "string \<Rightarrow> string \<Rightarrow> bool" where
  "is_substring k s = list_ex (\<lambda>i. take (length k) (drop i s) = k) [0 ..< Suc (length s)]"

text \<open>
  \<open>k in v\<close> for a string \<open>k\<close>: a key of a dictionary, a substring of a string, an
  element of a list; a \<open>TypeError\<close> on a value that is no container.
\<close>

fun py_in :: "string \<Rightarrow> pyval \<Rightarrow> exn + bool" where
  "py_in k (VDict kvs) = Inr (map_of kvs k \<noteq> None)"
| "py_in k (VStr s) = Inr (is_substring k s)"
| "py_in k (VList xs) = Inr (list_ex (\<lambda>x. x = VStr k) xs)"
| "py_in k v = Inl TypeError"

text \<open>\<open>v[k]\<close> for a string \<open>k\<close>: only a dictionary can be indexed by a string.\<close>

fun py_getitem :: "pyval \<Rightarrow> string \<Rightarrow> exn + pyval" where
  "py_getitem (VDict kvs) k = (case map_of kvs k of None \<Rightarrow> Inl KeyError | Some v \<Rightarrow> Inr v)"
| "py_getitem v k = Inl TypeError"

fun dict_set :: "(string \<times> 'v) list \<Rightarrow> string \<Rightarrow> 'v \<Rightarrow> (string \<times> 'v) list" where
  "dict_set [] k v = [(k, v)]"
| "dict_set ((k', v') # kvs) k v =
     (if k' = k then (k, v) # kvs else (k', v') # dict_set kvs k v)"

text \<open>\<open>v[k] = x\<close>: the dictionary keeps the position of a key it already has.\<close>

fun py_setitem :: "pyval \<Rightarrow> string \<Rightarrow> pyval \<Rightarrow> exn + pyval" where
  "py_setitem (VDict kvs) k x = Inr (VDict (dict_set kvs k x))"
| "py_setitem v k x = Inl TypeError"

text \<open>
  The idiom \<open>k in record and record[k]\<close> of the source: \<open>None\<close> when the key is not
  in the record, the item otherwise.
\<close>

definition item_if_present :: "string \<Rightarrow> pyval \<Rightarrow> exn + pyval option" where
  "item_if_present k r =
     bindE (py_in k r) (\<lambda>has.
       if has then bindE (py_getitem r k) (\<lambda>v. Inr (Some v)) else Inr None)"

text \<open>
  \<open>float(v)\<close>. An integer is rounded to the nearest double and overflows from
  \<open>2 ^ 1024\<close> on.
\<close>

fun py_float :: "pylib \<Rightarrow> pyval \<Rightarrow> exn + pyfloat" where
  "py_float L (VFloat f) = Inr f"
| "py_float L (VInt i) =
     (if \<bar>b64 i 1\<bar> < 2 ^ 1024 then Inr (Fin (b64 i 1)) else Inl OverflowError)"
| "py_float L (VBool b) = Inr (Fin (if b then 1 else 0))"
| "py_float L (VStr s) =
     (case float_of_str L s of Inl msg \<Rightarrow> Inl (ValueError msg) | Inr f \<Rightarrow> Inr f)"
| "py_float L v = Inl TypeError"

text \<open>The value of an f-string field \<open>{v}\<close>.\<close>

fun py_format :: "pylib \<Rightarrow> pyval \<Rightarrow> string" where
  "py_format L (VStr s) = s"
| "py_format L (VInt i) = str_int i"
| "py_format L (VBool b) = (if b then ''True'' else ''False'')"
| "py_format L VNone = ''None''"
| "py_format L (VFloat f) = str_float L f"
| "py_format L v = repr_val L v"

text \<open>\<open>re.match(r'^[a-z]{2}$', v)\<close>: a \<open>TypeError\<close> unless \<open>v\<close> is a string.\<close>

fun re_match_language :: "pyval \<Rightarrow> exn + bool" where
  "re_match_language (VStr s) = Inr (match_iso639 s)"
| "re_match_language v = Inl TypeError"

text \<open>\<open>all(f(x) for x in xs)\<close>: stops at the first false element.\<close>

fun py_all :: "('a \<Rightarrow> exn + bool) \<Rightarrow> 'a list \<Rightarrow> exn + bool" where
  "py_all f [] = Inr True"
| "py_all f (x # xs) =
     (case f x of Inl e \<Rightarrow> Inl e | Inr b \<Rightarrow> if b then py_all f xs else Inr False)"

text \<open>A loop that builds a list and stops at the first exception.\<close>

fun mapE :: "('a \<Rightarrow> exn + 'b) \<Rightarrow> 'a list \<Rightarrow> exn + 'b list" where
  "mapE f [] = Inr []"
| "mapE f (x # xs) =
     (case f x of Inl e \<Rightarrow> Inl e
      | Inr y \<Rightarrow> (case mapE f xs of Inl e \<Rightarrow> Inl e | Inr ys \<Rightarrow> Inr (y # ys)))"

section \<open>validate_data\<close>

text \<open>
  The comprehension
  \<open>[field for field in self.required_fields if field not in record or not record[field]]\<close>.
\<close>

fun missing_fields :: "string list \<Rightarrow> pyval \<Rightarrow> exn + string list" where
  "missing_fields [] record = Inr []"
| "missing_fields (field # others) record =
     (case item_if_present field record of
        Inl e \<Rightarrow> Inl e
      | Inr v \<Rightarrow>
          (case missing_fields others record of
             Inl e \<Rightarrow> Inl e
           | Inr rest \<Rightarrow>
               Inr (if (case v of None \<Rightarrow> True | Some x \<Rightarrow> \<not> py_truthy x)
                    then field # rest else rest)))"

definition missing_message :: "string list \<Rightarrow> nat \<Rightarrow> string" where
  "missing_message missing row_num =
     ''ERROR: Missing required field(s): '' @ join '', '' missing @ '' in row '' @
     str_nat row_num @ ''.''"

definition score_range_message :: "nat \<Rightarrow> string" where
  "score_range_message row_num =
     ''ERROR: Invalid value for the field(s): sentiment_score in row '' @ str_nat row_num @
     ''. Score must be between -1 and 1.''"

definition score_type_message :: "nat \<Rightarrow> string" where
  "score_type_message row_num =
     ''ERROR: Invalid data type for the field(s): sentiment_score in row '' @
     str_nat row_num @ ''. Please ensure correct data types.''"

definition language_message :: "nat \<Rightarrow> string" where
  "language_message row_num =
     ''ERROR: Invalid value for the field(s): language in row '' @ str_nat row_num @
     ''. Language must be in ISO 639-1 format.''"

definition timestamp_message :: "nat \<Rightarrow> string" where
  "timestamp_message row_num =
     ''ERROR: Invalid value for the field(s): timestamp in row '' @ str_nat row_num @
     ''. Timestamp must be in ISO 8601 format.''"

text \<open>
  The state of the loop is the pair \<open>(is_valid, error_messages)\<close>. Each of the four
  checks of the loop body is one function on that state.
\<close>

type_synonym vstate = "bool \<times> string list"

definition flag :: "vstate \<Rightarrow> string \<Rightarrow> vstate" where
  "flag st msg = (False, snd st @ [msg])"

text \<open>
  What an iteration does to the state, seen from outside: it appends messages, and the
  flag stays true only if it appends none. This is how the lemmas below speak of
  the four checks.
\<close>

definition extend :: "vstate \<Rightarrow> string list \<Rightarrow> vstate" where
  "extend st new = (fst st \<and> new = [], snd st @ new)"

definition check_missing :: "nat \<Rightarrow> pyval \<Rightarrow> vstate \<Rightarrow> exn + vstate" where
  "check_missing row_num record st =
     bindE (missing_fields required_fields record) (\<lambda>missing.
       Inr (if missing \<noteq> [] then flag st (missing_message missing row_num) else st))"

text \<open>\<open>score < -1 or score > 1\<close>; every comparison with a NaN is false.\<close>

fun out_of_range :: "pyfloat \<Rightarrow> bool" where
  "out_of_range (Fin q) = (q < - 1 \<or> 1 < q)"
| "out_of_range PosInf = True"
| "out_of_range NegInf = True"
| "out_of_range NaN = False"

text \<open>
  The \<open>try\<close> around \<open>float(record["sentiment_score"])\<close> catches \<open>ValueError\<close> and
  \<open>TypeError\<close> and nothing else.
\<close>

definition check_score :: "pylib \<Rightarrow> nat \<Rightarrow> pyval \<Rightarrow> vstate \<Rightarrow> exn + vstate" where
  "check_score L row_num record st =
     bindE (item_if_present ''sentiment_score'' record) (\<lambda>v.
       case v of
         None \<Rightarrow> Inr st
       | Some x \<Rightarrow>
           if x = VNone then Inr st
           else (case py_float L x of
                   Inr score \<Rightarrow>
                     Inr (if out_of_range score then flag st (score_range_message row_num)
                          else st)
                 | Inl (ValueError msg) \<Rightarrow> Inr (flag st (score_type_message row_num))
                 | Inl TypeError \<Rightarrow> Inr (flag st (score_type_message row_num))
                 | Inl e \<Rightarrow> Inl e))"

definition check_language :: "nat \<Rightarrow> pyval \<Rightarrow> vstate \<Rightarrow> exn + vstate" where
  "check_language row_num record st =
     bindE (item_if_present ''language'' record) (\<lambda>v.
       case v of
         None \<Rightarrow> Inr st
       | Some x \<Rightarrow>
           if py_truthy x
           then bindE (re_match_language x) (\<lambda>m.
                  Inr (if \<not> m then flag st (language_message row_num) else st))
           else Inr st)"

text \<open>
  \<open>record["timestamp"].replace('Z', '+00:00')\<close> is an \<open>AttributeError\<close> on a value
  that is not a string, and the \<open>try\<close> around it catches \<open>ValueError\<close> and
  \<open>TypeError\<close> only.
\<close>

definition check_timestamp :: "pylib \<Rightarrow> nat \<Rightarrow> pyval \<Rightarrow> vstate \<Rightarrow> exn + vstate" where
  "check_timestamp L row_num record st =
     bindE (item_if_present ''timestamp'' record) (\<lambda>v.
       case v of
         None \<Rightarrow> Inr st
       | Some x \<Rightarrow>
           if py_truthy x
           then (case x of
                   VStr s \<Rightarrow>
                     (case fromisoformat L (replace_Z s) of
                        Some dt \<Rightarrow> Inr st
                      | None \<Rightarrow> Inr (flag st (timestamp_message row_num)))
                 | _ \<Rightarrow> Inl AttributeError)
           else Inr st)"

definition validate_record :: "pylib \<Rightarrow> nat \<Rightarrow> pyval \<Rightarrow> vstate \<Rightarrow> exn + vstate" where
  "validate_record L row_num record st =
     bindE (check_missing row_num record st) (\<lambda>st1.
     bindE (check_score L row_num record st1) (\<lambda>st2.
     bindE (check_language row_num record st2) (\<lambda>st3.
     check_timestamp L row_num record st3)))"

fun validate_loop :: "pylib \<Rightarrow> nat \<Rightarrow> pyval list \<Rightarrow> vstate \<Rightarrow> exn + vstate" where
  "validate_loop L idx [] st = Inr st"
| "validate_loop L idx (record # rest) st =
     (case validate_record L (idx + 1) record st of
        Inl e \<Rightarrow> Inl e
      | Inr st' \<Rightarrow> validate_loop L (idx + 1) rest st')"

definition validate_data :: "pylib \<Rightarrow> pyval list \<Rightarrow> exn + vstate" where
  "validate_data L data = validate_loop L 0 data (True, [])"

section \<open>generate_validation_report\<close>

definition present_and_truthy :: "string \<Rightarrow> pyval \<Rightarrow> exn + bool" where
  "present_and_truthy k record =
     bindE (item_if_present k record) (\<lambda>v.
       Inr (case v of None \<Rightarrow> False | Some x \<Rightarrow> py_truthy x))"

text \<open>
  The generator of the \<open>language\<close> entry passes \<open>record["language"]\<close> to
  \<open>re.match\<close> for every record that has the key, whatever the value is.
\<close>

fun language_all :: "pyval list \<Rightarrow> exn + bool" where
  "language_all [] = Inr True"
| "language_all (record # rest) =
     (case py_in ''language'' record of
        Inl e \<Rightarrow> Inl e
      | Inr has \<Rightarrow>
          if \<not> has then language_all rest
          else (case bindE (py_getitem record ''language'') re_match_language of
                  Inl e \<Rightarrow> Inl e
                | Inr m \<Rightarrow> if m then language_all rest else Inr False))"

text \<open>The loop over the records that ends at the first invalid score.\<close>

fun score_status :: "pylib \<Rightarrow> pyval list \<Rightarrow> exn + string" where
  "score_status L [] = Inr ''valid''"
| "score_status L (record # rest) =
     (case item_if_present ''sentiment_score'' record of
        Inl e \<Rightarrow> Inl e
      | Inr None \<Rightarrow> score_status L rest
      | Inr (Some x) \<Rightarrow>
          if x = VNone then score_status L rest
          else (case py_float L x of
                  Inr score \<Rightarrow> if out_of_range score then Inr ''invalid''
                                 else score_status L rest
                | Inl (ValueError msg) \<Rightarrow> Inr ''invalid''
                | Inl TypeError \<Rightarrow> Inr ''invalid''
                | Inl e \<Rightarrow> Inl e))"

definition validation_header ::
  "nat \<Rightarrow> string \<Rightarrow> string \<Rightarrow> string \<Rightarrow> string \<Rightarrow> string \<Rightarrow> string" where
  "validation_header n s_id s_language s_text s_timestamp s_score =
     ''# Customer Feedback Data Validation Report:'' @ [CHR 0x0A] @
     ''- Total Feedback Records: '' @ str_nat n @ [CHR 0x0A] @
     ''## Required Fields Check:'' @ [CHR 0x0A] @
     ''  feedback_id: '' @ s_id @ [CHR 0x0A] @
     ''  language: '' @ s_language @ [CHR 0x0A] @
     ''  feedback_text: '' @ s_text @ [CHR 0x0A] @
     ''  timestamp: '' @ s_timestamp @ [CHR 0x0A] @
     ''  sentiment_score: '' @ s_score @ [CHR 0x0A] @ [CHR 0x0A] @
     ''## Validation Status:'' @ [CHR 0x0A]"

definition success_message :: string where
  "success_message =
     ''Data validation is successful! Would you like to proceed with the analysis or provide another dataset?''"

definition generate_validation_report :: "pylib \<Rightarrow> pyval list \<Rightarrow> exn + string" where
  "generate_validation_report L data =
     bindE (validate_data L data) (\<lambda>(is_valid, error_messages).
     bindE (py_all (present_and_truthy ''feedback_id'') data) (\<lambda>ok_id.
     bindE (language_all data) (\<lambda>ok_language.
     bindE (py_all (py_in ''feedback_text'') data) (\<lambda>ok_text.
     bindE (py_all (present_and_truthy ''timestamp'') data) (\<lambda>ok_timestamp.
     bindE (score_status L data) (\<lambda>s_score.
       Inr (validation_header (length data)
              (if ok_id then ''present'' else ''missing'')
              (if ok_language then ''valid'' else ''invalid'')
              (if ok_text then ''valid'' else ''invalid'')
              (if ok_timestamp then ''valid'' else ''invalid'')
              s_score @
            (if is_valid then success_message
             else join [CHR 0x0A] error_messages))))))))"

section \<open>Enrichment\<close>

definition translate_feedback :: "pylib \<Rightarrow> pyval \<Rightarrow> pyval \<Rightarrow> pyval" where
  "translate_feedback L text language =
     (if language = VStr ''en'' then text
      else VStr (''[Translated from '' @ py_format L language @ ''] '' @ py_format L text))"

definition synchronize_timestamp :: "pylib \<Rightarrow> pyval \<Rightarrow> exn + string" where
  "synchronize_timestamp L timestamp =
     (case timestamp of
        VStr s \<Rightarrow>
          (case fromisoformat L (replace_Z s) of
             None \<Rightarrow>
               Inl (ValueError (''Invalid isoformat string: '' @ repr_val L (VStr (replace_Z s))))
           | Some dt \<Rightarrow> bindE (astimezone_utc L dt) (\<lambda>utc. Inr (isoformat L utc)))
      | _ \<Rightarrow> Inl AttributeError)"

text \<open>
  A call of \<open>calculate_sentiment_score\<close> on a value of any type: \<open>text.lower()\<close> is
  an \<open>AttributeError\<close> unless the value is a string.
\<close>

definition call_calculate_sentiment_score :: "pyval \<Rightarrow> exn + pyfloat \<times> nat \<times> nat \<times> nat" where
  "call_calculate_sentiment_score v =
     (case v of VStr s \<Rightarrow> Inr (calculate_sentiment_score s) | _ \<Rightarrow> Inl AttributeError)"

text \<open>
  \<open>sentiment_score, _, _, _ = self.calculate_sentiment_score(processed_record["feedback_text"])\<close>.
\<close>

definition computed_score :: "pyval \<Rightarrow> exn + pyfloat" where
  "computed_score text =
     bindE (call_calculate_sentiment_score text) (\<lambda>(sentiment_score, p, n, t).
       Inr sentiment_score)"

text \<open>The body of the loop of \<open>process_feedback\<close>: the processed record of one record.\<close>

definition process_record :: "pylib \<Rightarrow> pyval \<Rightarrow> exn + pyval" where
  "process_record L record =
     bindE (py_getitem record ''feedback_id'') (\<lambda>fid.
     bindE (py_getitem record ''language'') (\<lambda>lang.
     bindE (py_getitem record ''feedback_text'') (\<lambda>text.
     bindE (py_getitem record ''language'') (\<lambda>lang2.
     bindE (py_getitem record ''timestamp'') (\<lambda>ts.
     bindE (synchronize_timestamp L ts) (\<lambda>utc.
     bindE (item_if_present ''sentiment_score'' record) (\<lambda>v.
     bindE (case v of
              Some x \<Rightarrow>
                if x = VNone then computed_score (translate_feedback L text lang2)
                else py_float L x
            | None \<Rightarrow> computed_score (translate_feedback L text lang2)) (\<lambda>score.
       Inr (VDict [(''feedback_id'', fid), (''language'', lang),
                   (''feedback_text'', translate_feedback L text lang2),
                   (''timestamp'', VStr utc),
                   (''sentiment_score'', VFloat score)])))))))))"

definition process_feedback :: "pylib \<Rightarrow> pyval list \<Rightarrow> exn + pyval list" where
  "process_feedback L data = mapE (process_record L) data"

section \<open>generate_detailed_report\<close>

text \<open>\<open>original.get("sentiment_score", "Not provided")\<close>.\<close>

fun py_get_default :: "pyval \<Rightarrow> string \<Rightarrow> pyval \<Rightarrow> exn + pyval" where
  "py_get_default (VDict kvs) k d = Inr (case map_of kvs k of None \<Rightarrow> d | Some v \<Rightarrow> v)"
| "py_get_default v k d = Inl AttributeError"

definition detail_header :: "nat \<Rightarrow> string" where
  "detail_header n =
     ''# Customer Feedback JSON Summary'' @ [CHR 0x0A] @ [CHR 0x0A] @
     ''**Total Feedback Records Evaluated:** '' @ str_nat n @ [CHR 0x0A] @ [CHR 0x0A] @
     ''---'' @ [CHR 0x0A] @ [CHR 0x0A]"

text \<open>The f-string of one record, its fields in the order they are evaluated.\<close>

definition detail_text ::
  "string \<Rightarrow> string \<Rightarrow> string \<Rightarrow> string \<Rightarrow> string \<Rightarrow> string \<Rightarrow> nat \<Rightarrow> nat \<Rightarrow> nat \<Rightarrow>
   string \<Rightarrow> string \<Rightarrow> string \<Rightarrow> string" where
  "detail_text o_id o_language o_text o_score o_timestamp p_text positive_count negative_count
     total_words s_score p_score p_timestamp =
     ''## Detailed Analysis per Feedback'' @ [CHR 0x0A] @ [CHR 0x0A] @
     ''### Feedback: '' @ o_id @ [CHR 0x0A] @ [CHR 0x0A] @
     ''#### Input Data:'' @ [CHR 0x0A] @
     ''- **Language:** '' @ o_language @ [CHR 0x0A] @
     ''- **Feedback Text:** '' @ o_text @ [CHR 0x0A] @
     ''- **Sentiment Score (if provided):** '' @ o_score @ [CHR 0x0A] @
     ''- **Timestamp:** '' @ o_timestamp @ [CHR 0x0A] @ [CHR 0x0A] @
     ''---'' @ [CHR 0x0A] @ [CHR 0x0A] @
     ''## Processing Steps'' @ [CHR 0x0A] @ [CHR 0x0A] @
     ''### 1. Translation Check'' @ [CHR 0x0A] @
     ''- **IF** language is not '' @ [CHR 0x22] @ ''en'' @ [CHR 0x22] @
     '', **THEN** the translated text is: '' @ p_text @ [CHR 0x0A] @
     ''- **ELSE**: Use the original text.'' @ [CHR 0x0A] @ [CHR 0x0A] @
     ''### 2. Sentiment Analysis Calculation'' @ [CHR 0x0A] @
     ''- **Count of Positive Words (P):** '' @ str_nat positive_count @ [CHR 0x0A] @
     ''- **Count of Negative Words (N):** '' @ str_nat negative_count @ [CHR 0x0A] @
     ''- **Total Words:** '' @ str_nat total_words @ [CHR 0x0A] @
     ''- **Calculation:**  '' @ [CHR 0x0A] @
     ''  $$ '' @ [CHR 0x5C] @ ''text{sentiment'' @ [CHR 0x5C] @ ''_score} = '' @ [CHR 0x5C] @
     ''frac{('' @ str_nat positive_count @ '' - '' @ str_nat negative_count @
     '')}{total'' @ [CHR 0x5C] @ ''_words} = '' @ [CHR 0x5C] @ ''frac{'' @
     str_int (int positive_count - int negative_count) @ ''}{'' @ str_nat total_words @
     ''} = '' @ s_score @ '' $$'' @ [CHR 0x0A] @
     ''- **Final Sentiment Score:** '' @ p_score @ [CHR 0x0A] @ [CHR 0x0A] @
     ''### 3. Timestamp Synchronization'' @ [CHR 0x0A] @
     ''- **Synchronized Timestamp:** '' @ p_timestamp @ [CHR 0x0A] @ [CHR 0x0A] @
     ''---'' @ [CHR 0x0A] @ [CHR 0x0A]"

definition detail_block :: "pylib \<Rightarrow> pyval \<Rightarrow> pyval \<Rightarrow> exn + string" where
  "detail_block L original processed =
     bindE (py_getitem processed ''feedback_text'') (\<lambda>scored_text.
     bindE (call_calculate_sentiment_score scored_text)
       (\<lambda>(sentiment_score, positive_count, negative_count, total_words).
     bindE (py_getitem original ''feedback_id'') (\<lambda>o_id.
     bindE (py_getitem original ''language'') (\<lambda>o_language.
     bindE (py_getitem original ''feedback_text'') (\<lambda>o_text.
     bindE (py_get_default original ''sentiment_score'' (VStr ''Not provided'')) (\<lambda>o_score.
     bindE (py_getitem original ''timestamp'') (\<lambda>o_timestamp.
     bindE (py_getitem processed ''feedback_text'') (\<lambda>p_text.
     bindE (py_getitem processed ''sentiment_score'') (\<lambda>p_score.
     bindE (py_getitem processed ''timestamp'') (\<lambda>p_timestamp.
       Inr (detail_text (py_format L o_id) (py_format L o_language) (py_format L o_text)
              (py_format L o_score) (py_format L o_timestamp) (py_format L p_text)
              positive_count negative_count total_words (str_float L sentiment_score)
              (py_format L p_score) (py_format L p_timestamp))))))))))))"

text \<open>The loop over \<open>zip(data, processed_data)\<close>.\<close>

fun detail_blocks :: "pylib \<Rightarrow> pyval list \<Rightarrow> pyval list \<Rightarrow> exn + string" where
  "detail_blocks L (original # data) (processed # processed_data) =
     (case detail_block L original processed of
        Inl e \<Rightarrow> Inl e
      | Inr b \<Rightarrow>
          (case detail_blocks L data processed_data of
             Inl e \<Rightarrow> Inl e
           | Inr bs \<Rightarrow> Inr (b @ bs)))"
| "detail_blocks L data processed_data = Inr []"

text \<open>The trailing payload: \<open>json.dumps({"feedbacks": processed_data}, indent=2)\<close>.\<close>

definition json_output :: "pyval list \<Rightarrow> pyval" where
  "json_output processed_data = VDict [(''feedbacks'', VList processed_data)]"

definition payload_open :: string where
  "payload_open =
     ''## Structured JSON OUTPUT'' @ [CHR 0x0A] @ [CHR 0x0A] @
     [CHR 0x60, CHR 0x60, CHR 0x60] @ ''json'' @ [CHR 0x0A]"

definition payload_close :: string where
  "payload_close = [CHR 0x0A, CHR 0x60, CHR 0x60, CHR 0x60]"

definition generate_detailed_report :: "pylib \<Rightarrow> pyval list \<Rightarrow> pyval list \<Rightarrow> exn + string" where
  "generate_detailed_report L data processed_data =
     bindE (detail_blocks L data processed_data) (\<lambda>blocks.
       Inr (detail_header (length data) @ blocks @ payload_open @
            json_dumps L (json_output processed_data) @ payload_close))"

section \<open>The decoders\<close>

definition csv_cell :: "string option \<Rightarrow> pyval" where
  "csv_cell c = (case c of None \<Rightarrow> VNone | Some s \<Rightarrow> VStr s)"

text \<open>
  The body of the loop of \<open>parse_csv\<close> on one row of the reader. \<open>Inl\<close> holds
  \<open>str(e)\<close> of the exception that \<open>float\<close> raises.
\<close>

definition csv_row :: "pylib \<Rightarrow> (string \<times> string option) list \<Rightarrow> string + pyval" where
  "csv_row L row =
     (let record = map (\<lambda>(k, c). (k, csv_cell c)) row
      in case map_of row ''sentiment_score'' of
           None \<Rightarrow> Inr (VDict record)
         | Some None \<Rightarrow> Inr (VDict (dict_set record ''sentiment_score'' VNone))
         | Some (Some s) \<Rightarrow>
             if s = [] \<or> py_lower s = ''null''
             then Inr (VDict (dict_set record ''sentiment_score'' VNone))
             else (case float_of_str L s of
                     Inl msg \<Rightarrow> Inl msg
                   | Inr f \<Rightarrow> Inr (VDict (dict_set record ''sentiment_score'' (VFloat f)))))"

fun csv_rows :: "pylib \<Rightarrow> (string \<times> string option) list list \<Rightarrow> string + pyval list" where
  "csv_rows L [] = Inr []"
| "csv_rows L (row # rest) =
     (case csv_row L row of
        Inl msg \<Rightarrow> Inl msg
      | Inr record \<Rightarrow>
          (case csv_rows L rest of Inl msg \<Rightarrow> Inl msg | Inr records \<Rightarrow> Inr (record # records)))"

definition csv_error :: "string \<Rightarrow> exn" where
  "csv_error msg = ValueError (''ERROR: Invalid CSV format. '' @ msg)"

text \<open>
  \<open>parse_csv\<close>: every exception inside its \<open>try\<close> becomes a \<open>ValueError\<close> with the
  CSV prefix, the one of \<open>float\<close> on a cell as well as the reader's own.
\<close>

definition parse_csv :: "pylib \<Rightarrow> string \<Rightarrow> exn + pyval list" where
  "parse_csv L csv_data =
     (let (rows, reader_error) = csv_DictReader L (split_lines (py_strip csv_data))
      in case csv_rows L rows of
           Inl msg \<Rightarrow> Inl (csv_error msg)
         | Inr records \<Rightarrow>
             (case reader_error of
                Some msg \<Rightarrow> Inl (csv_error msg)
              | None \<Rightarrow> Inr records))"

text \<open>The body of the loop of \<open>parse_json\<close> on one element of the array.\<close>

definition json_record :: "pylib \<Rightarrow> pyval \<Rightarrow> exn + pyval" where
  "json_record L record =
     bindE (item_if_present ''sentiment_score'' record) (\<lambda>v.
       case v of
         None \<Rightarrow> Inr record
       | Some x \<Rightarrow>
           if x = VNone \<or> x = VStr ''null''
           then py_setitem record ''sentiment_score'' VNone
           else if x \<noteq> VStr []
           then bindE (py_float L x) (\<lambda>f. py_setitem record ''sentiment_score'' (VFloat f))
           else Inr record)"

definition json_structure_error :: exn where
  "json_structure_error =
     ValueError (''ERROR: Invalid JSON structure. Expected '' @ [CHR 0x27] @ ''feedbacks'' @
                 [CHR 0x27] @ '' array.'')"

text \<open>
  \<open>parse_json\<close>: its \<open>except\<close> clause catches \<open>JSONDecodeError\<close> only, so an
  exception of \<open>float\<close> on a score leaves the function as it is.
\<close>

definition parse_json :: "pylib \<Rightarrow> string \<Rightarrow> exn + pyval list" where
  "parse_json L json_data =
     (case json_loads L json_data of
        None \<Rightarrow> Inl (ValueError ''ERROR: Invalid JSON format.'')
      | Some data \<Rightarrow>
          bindE (item_if_present ''feedbacks'' data) (\<lambda>v.
            case v of
              Some (VList records) \<Rightarrow> mapE (json_record L) records
            | _ \<Rightarrow> Inl json_structure_error))"

section \<open>process_data\<close>

definition decode :: "pylib \<Rightarrow> string \<Rightarrow> exn + pyval list" where
  "decode L data_input =
     (if startswith (py_strip data_input) ''{'' then parse_json L data_input
      else parse_csv L data_input)"

text \<open>
  \<open>Inr\<close> is the string that \<open>process_data\<close> returns, \<open>Inl\<close> the exception that
  leaves it. A \<open>ValueError\<close> of the decoders is returned as its message.
\<close>

definition process_data :: "pylib \<Rightarrow> string \<Rightarrow> exn + string" where
  "process_data L data_input =
     (case decode L data_input of
        Inl (ValueError msg) \<Rightarrow> Inr msg
      | Inl e \<Rightarrow> Inl e
      | Inr data \<Rightarrow>
          bindE (validate_data L data) (\<lambda>(is_valid, error_messages).
            if \<not> is_valid then generate_validation_report L data
            else bindE (process_feedback L data) (\<lambda>processed_data.
                   generate_detailed_report L data processed_data)))"

section \<open>The scores of decoded records\<close>

text \<open>
  What the two decoders leave as the score of a record they return: no entry, \<open>None\<close>,
  a float, or the empty string that \<open>parse_json\<close> keeps. The predicate is used to
  state what the validator does after a decoder.
\<close>

fun is_float :: "pyval \<Rightarrow> bool" where
  "is_float (VFloat f) = True"
| "is_float v = False"

definition decoded_score_value :: "pyval option \<Rightarrow> bool" where
  "decoded_score_value v =
     (case v of None \<Rightarrow> True | Some x \<Rightarrow> x = VNone \<or> x = VStr [] \<or> is_float x)"

section \<open>The specification's reading of the counts\<close>

text \<open>
  The specification words each count as the number of tokens, every occurrence
  counted, that equal some entry of the lexicon. This definition follows those words;
  it is compared with \<open>calculate_sentiment_score\<close> below.
\<close>

definition token_occurrences :: "string list \<Rightarrow> string list \<Rightarrow> nat" where
  "token_occurrences lexicon tokens = length (filter (\<lambda>t. t \<in> set lexicon) tokens)"

section \<open>A reference library\<close>

text \<open>
  \<open>py_lib\<close> is one concrete library, used to run the program on inputs. Its functions
  follow CPython: the shortest-digits printer and the correctly rounded reader of
  floats, \<open>repr\<close>, the \<open>json\<close> encoder and decoder, the \<open>csv\<close> reader in its default
  dialect, and \<open>datetime\<close> in the ISO format that \<open>isoformat\<close> itself writes. They
  work on the model's strings, whose characters are the code points below 256; a
  JSON escape that names a higher code point has no value here.
\<close>

subsection \<open>Reading and printing floats\<close>

definition is_digit :: "char \<Rightarrow> bool" where
  "is_digit c = (let n = (of_char c :: nat) in 48 \<le> n \<and> n \<le> 57)"

definition digit_val :: "char \<Rightarrow> nat" where
  "digit_val c = of_char c - 48"

text \<open>
  A run of digits, read into \<open>acc\<close>; \<open>cnt\<close> counts them. With \<open>us\<close> a single
  underscore between two digits is skipped, as \<open>float\<close> allows.
\<close>

fun read_digits :: "bool \<Rightarrow> nat \<Rightarrow> nat \<Rightarrow> string \<Rightarrow> nat \<times> nat \<times> string" where
  "read_digits us acc cnt [] = (acc, cnt, [])"
| "read_digits us acc cnt [c] =
     (if is_digit c then (acc * 10 + digit_val c, Suc cnt, []) else (acc, cnt, [c]))"
| "read_digits us acc cnt (c # c' # cs) =
     (if is_digit c then read_digits us (acc * 10 + digit_val c) (Suc cnt) (c' # cs)
      else if us \<and> c = CHR ''_'' \<and> 0 < cnt \<and> is_digit c'
      then read_digits us acc cnt (c' # cs)
      else (acc, cnt, c # c' # cs))"

text \<open>
  The exponent part \<open>e\<close>, \<open>e+\<close> or \<open>e-\<close> with its digits, if the input starts with
  one: the exponent and the rest. \<open>None\<close> when an \<open>e\<close> has no digits after it.
\<close>

definition read_exponent :: "bool \<Rightarrow> string \<Rightarrow> (int \<times> string) option" where
  "read_exponent us s =
     (case s of
        [] \<Rightarrow> Some (0, [])
      | c # cs \<Rightarrow>
          if c = CHR ''e'' \<or> c = CHR ''E''
          then (let (neg, ds) =
                      (case cs of
                         [] \<Rightarrow> (False, [])
                       | d # r \<Rightarrow> if d = CHR ''-'' then (True, r)
                                  else if d = CHR ''+'' then (False, r) else (False, cs));
                    (n, cnt, r) = read_digits us 0 0 ds
                in if cnt = 0 then None
                   else Some (if neg then - int n else int n, r))
          else Some (0, s))"

text \<open>
  The double of the decimal \<open>m * 10 ^ e\<close>, correctly rounded; from \<open>2 ^ 1024\<close> on it
  is an infinity.
\<close>

definition decimal_to_float :: "bool \<Rightarrow> nat \<Rightarrow> int \<Rightarrow> pyfloat" where
  "decimal_to_float neg m e =
     (let q = (if 0 \<le> e then b64 (int m * 10 ^ nat e) 1 else b64 (int m) (10 ^ nat (- e)))
      in if 2 ^ 1024 \<le> q then (if neg then NegInf else PosInf)
         else Fin (if neg then - q else q))"

text \<open>
  An unsigned decimal literal of \<open>float\<close>: digits, a point and digits, an exponent.
  One of the two digit runs may be empty. The result is the mantissa and the power
  of ten, and the rest of the input.
\<close>

definition read_decimal :: "bool \<Rightarrow> string \<Rightarrow> (nat \<times> int \<times> string) option" where
  "read_decimal us s =
     (let (i, ci, r1) = read_digits us 0 0 s;
          (m, cf, r2) =
            (case r1 of
               [] \<Rightarrow> (i, 0, [])
             | c # cs \<Rightarrow> if c = CHR ''.'' then read_digits us i 0 cs else (i, 0, r1))
      in if ci + cf = 0 then None
         else (case read_exponent us r2 of
                 None \<Rightarrow> None
               | Some (e, r3) \<Rightarrow> Some (m, e - int cf, r3)))"

text \<open>\<open>repr\<close> of a string.\<close>

definition hex_digit :: "nat \<Rightarrow> char" where
  "hex_digit n = ''0123456789abcdef'' ! n"

definition repr_char :: "char \<Rightarrow> char \<Rightarrow> string" where
  "repr_char quote c =
     (let n = (of_char c :: nat)
      in if c = quote \<or> c = CHR 0x5C then [CHR 0x5C, c]
         else if n = 9 then [CHR 0x5C, CHR ''t'']
         else if n = 10 then [CHR 0x5C, CHR ''n'']
         else if n = 13 then [CHR 0x5C, CHR ''r'']
         else if n < 32 \<or> (127 \<le> n \<and> n \<le> 160) \<or> n = 173
         then [CHR 0x5C, CHR ''x'', hex_digit (n div 16), hex_digit (n mod 16)]
         else [c])"

definition repr_str :: "string \<Rightarrow> string" where
  "repr_str s =
     (let quote = (if CHR 0x27 \<in> set s \<and> CHR 0x22 \<notin> set s then CHR 0x22 else CHR 0x27)
      in [quote] @ concat (map (repr_char quote) s) @ [quote])"

text \<open>\<open>float(s)\<close> on a string.\<close>

definition ref_float_of_str :: "string \<Rightarrow> string + pyfloat" where
  "ref_float_of_str s =
     (let t = py_strip s;
          (neg, u) =
            (case t of
               [] \<Rightarrow> (False, [])
             | c # cs \<Rightarrow> if c = CHR ''-'' then (True, cs)
                        else if c = CHR ''+'' then (False, cs) else (False, t));
          failure = Inl (''could not convert string to float: '' @ repr_str s)
      in if py_lower u = ''inf'' \<or> py_lower u = ''infinity''
         then Inr (if neg then NegInf else PosInf)
         else if py_lower u = ''nan'' then Inr NaN
         else (case read_decimal True u of
                 Some (m, e, []) \<Rightarrow> Inr (decimal_to_float neg m e)
               | _ \<Rightarrow> failure))"

text \<open>
  \<open>repr\<close> of a float: the shortest decimal that reads back as the same double, the
  nearer one when two of that length do. \<open>exp10 a\<close> is the decimal exponent of a
  positive \<open>a\<close>.
\<close>

fun exp10_up :: "nat \<Rightarrow> rat \<Rightarrow> nat" where
  "exp10_up 0 a = 0"
| "exp10_up (Suc fuel) a = (if 10 \<le> a then Suc (exp10_up fuel (a / 10)) else 0)"

fun exp10_down :: "nat \<Rightarrow> rat \<Rightarrow> nat" where
  "exp10_down 0 a = 0"
| "exp10_down (Suc fuel) a = (if a < 1 then Suc (exp10_down fuel (a * 10)) else 0)"

definition exp10 :: "rat \<Rightarrow> int" where
  "exp10 a = (if 1 \<le> a then int (exp10_up 400 a) else - int (exp10_down 400 a))"

definition reads_back :: "int \<Rightarrow> int \<Rightarrow> rat \<Rightarrow> bool" where
  "reads_back m k a =
     (0 < m \<and> (if 0 \<le> k then b64 (m * 10 ^ nat k) 1 else b64 m (10 ^ nat (- k))) = a)"

definition pow10 :: "int \<Rightarrow> rat" where
  "pow10 k = (if 0 \<le> k then 10 ^ nat k else 1 / 10 ^ nat (- k))"

text \<open>The decimals of \<open>d\<close>, \<open>d + 1\<close>, ... significant digits next to \<open>a\<close>, tried in turn.\<close>

fun shortest_digits :: "nat \<Rightarrow> int \<Rightarrow> int \<Rightarrow> rat \<Rightarrow> int \<times> int" where
  "shortest_digits 0 d e a = (0, 0)"
| "shortest_digits (Suc fuel) d e a =
     (let k = e - d + 1; sc = a / pow10 k; lo = \<lfloor>sc\<rfloor>; hi = lo + 1;
          ok_lo = reads_back lo k a; ok_hi = reads_back hi k a;
          near_lo = (sc - of_int lo < of_int hi - sc \<or>
                     (sc - of_int lo = of_int hi - sc \<and> even lo))
      in if ok_lo \<and> (\<not> ok_hi \<or> near_lo) then (lo, k)
         else if ok_hi then (hi, k)
         else shortest_digits fuel (d + 1) e a)"

fun strip_zeros :: "nat \<Rightarrow> int \<Rightarrow> int \<Rightarrow> int \<times> int" where
  "strip_zeros 0 m k = (m, k)"
| "strip_zeros (Suc fuel) m k =
     (if m \<noteq> 0 \<and> m mod 10 = 0 then strip_zeros fuel (m div 10) (k + 1) else (m, k))"

definition repr_positive :: "rat \<Rightarrow> string" where
  "repr_positive a =
     (let (m0, k0) = shortest_digits 17 1 (exp10 a) a;
          (m, k) = strip_zeros 20 m0 k0;
          ds = str_nat (nat m);
          nd = int (length ds);
          decpt = nd + k
      in if - 4 \<le> decpt - 1 \<and> decpt - 1 < 16
         then (if decpt \<le> 0 then ''0.'' @ replicate (nat (- decpt)) CHR ''0'' @ ds
               else if nd \<le> decpt then ds @ replicate (nat (decpt - nd)) CHR ''0'' @ ''.0''
               else take (nat decpt) ds @ ''.'' @ drop (nat decpt) ds)
         else [hd ds] @ (if 1 < nd then ''.'' @ tl ds else []) @ ''e'' @
              (if decpt - 1 < 0 then ''-'' else ''+'') @
              (if \<bar>decpt - 1\<bar> < 10 then ''0'' else []) @ str_nat (nat \<bar>decpt - 1\<bar>))"

fun repr_float :: "pyfloat \<Rightarrow> string" where
  "repr_float (Fin q) =
     (if q = 0 then ''0.0'' else if q < 0 then ''-'' @ repr_positive (- q) else repr_positive q)"
| "repr_float PosInf = ''inf''"
| "repr_float NegInf = ''-inf''"
| "repr_float NaN = ''nan''"

subsection \<open>repr and the JSON encoder\<close>

fun ref_repr :: "pyval \<Rightarrow> string"
  and ref_repr_items :: "pyval list \<Rightarrow> string list"
  and ref_repr_members :: "(string \<times> pyval) list \<Rightarrow> string list" where
  "ref_repr VNone = ''None''"
| "ref_repr (VBool b) = (if b then ''True'' else ''False'')"
| "ref_repr (VInt i) = str_int i"
| "ref_repr (VFloat f) = repr_float f"
| "ref_repr (VStr s) = repr_str s"
| "ref_repr (VList xs) = ''['' @ join '', '' (ref_repr_items xs) @ '']''"
| "ref_repr (VDict kvs) = ''{'' @ join '', '' (ref_repr_members kvs) @ ''}''"
| "ref_repr_items [] = []"
| "ref_repr_items (x # xs) = ref_repr x # ref_repr_items xs"
| "ref_repr_members [] = []"
| "ref_repr_members ((k, v) # kvs) = (repr_str k @ '': '' @ ref_repr v) # ref_repr_members kvs"

text \<open>
  \<open>json.dumps(v, indent=2)\<close>: every character outside the printable ASCII range is
  escaped, an item goes on a line of its own, two blanks deeper for each level.
\<close>

definition json_escape_char :: "char \<Rightarrow> string" where
  "json_escape_char c =
     (let n = (of_char c :: nat)
      in if c = CHR 0x22 \<or> c = CHR 0x5C then [CHR 0x5C, c]
         else if n = 10 then [CHR 0x5C, CHR ''n'']
         else if n = 13 then [CHR 0x5C, CHR ''r'']
         else if n = 9 then [CHR 0x5C, CHR ''t'']
         else if n = 8 then [CHR 0x5C, CHR ''b'']
         else if n = 12 then [CHR 0x5C, CHR ''f'']
         else if 32 \<le> n \<and> n \<le> 126 then [c]
         else [CHR 0x5C, CHR ''u'', CHR ''0'', CHR ''0'', hex_digit (n div 16), hex_digit (n mod 16)])"

definition json_string :: "string \<Rightarrow> string" where
  "json_string s = [CHR 0x22] @ concat (map json_escape_char s) @ [CHR 0x22]"

fun json_float :: "pyfloat \<Rightarrow> string" where
  "json_float (Fin q) = repr_float (Fin q)"
| "json_float PosInf = ''Infinity''"
| "json_float NegInf = ''-Infinity''"
| "json_float NaN = ''NaN''"

definition nl_indent :: "nat \<Rightarrow> string" where
  "nl_indent lvl = CHR 0x0A # replicate (2 * lvl) CHR '' ''"

fun json_enc :: "nat \<Rightarrow> pyval \<Rightarrow> string"
  and json_enc_items :: "nat \<Rightarrow> pyval list \<Rightarrow> string list"
  and json_enc_members :: "nat \<Rightarrow> (string \<times> pyval) list \<Rightarrow> string list" where
  "json_enc lvl VNone = ''null''"
| "json_enc lvl (VBool b) = (if b then ''true'' else ''false'')"
| "json_enc lvl (VInt i) = str_int i"
| "json_enc lvl (VFloat f) = json_float f"
| "json_enc lvl (VStr s) = json_string s"
| "json_enc lvl (VList xs) =
     (if xs = [] then ''[]''
      else ''['' @ nl_indent (Suc lvl) @
           join ('','' @ nl_indent (Suc lvl)) (json_enc_items (Suc lvl) xs) @
           nl_indent lvl @ '']'')"
| "json_enc lvl (VDict kvs) =
     (if kvs = [] then ''{}''
      else ''{'' @ nl_indent (Suc lvl) @
           join ('','' @ nl_indent (Suc lvl)) (json_enc_members (Suc lvl) kvs) @
           nl_indent lvl @ ''}'')"
| "json_enc_items lvl [] = []"
| "json_enc_items lvl (x # xs) = json_enc lvl x # json_enc_items lvl xs"
| "json_enc_members lvl [] = []"
| "json_enc_members lvl ((k, v) # kvs) =
     (json_string k @ '': '' @ json_enc lvl v) # json_enc_members lvl kvs"

definition ref_json_dumps :: "pyval \<Rightarrow> string" where
  "ref_json_dumps v = json_enc 0 v"

subsection \<open>The JSON decoder\<close>

definition json_ws :: "char \<Rightarrow> bool" where
  "json_ws c = (c = CHR '' '' \<or> c = CHR 0x09 \<or> c = CHR 0x0A \<or> c = CHR 0x0D)"

definition skip_ws :: "string \<Rightarrow> string" where
  "skip_ws s = dropWhile json_ws s"

definition hex_val :: "char \<Rightarrow> nat option" where
  "hex_val c =
     (let n = (of_char c :: nat)
      in if 48 \<le> n \<and> n \<le> 57 then Some (n - 48)
         else if 97 \<le> n \<and> n \<le> 102 then Some (n - 87)
         else if 65 \<le> n \<and> n \<le> 70 then Some (n - 55)
         else None)"

definition hex4 :: "string \<Rightarrow> nat option" where
  "hex4 s =
     (case map hex_val (take 4 s) of
        [Some a, Some b, Some c, Some d] \<Rightarrow> Some (((a * 16 + b) * 16 + c) * 16 + d)
      | _ \<Rightarrow> None)"

definition json_unescape :: "char \<Rightarrow> char option" where
  "json_unescape e =
     (if e = CHR 0x22 \<or> e = CHR 0x5C \<or> e = CHR ''/'' then Some e
      else if e = CHR ''b'' then Some (CHR 0x08)
      else if e = CHR ''f'' then Some (CHR 0x0C)
      else if e = CHR ''n'' then Some (CHR 0x0A)
      else if e = CHR ''r'' then Some (CHR 0x0D)
      else if e = CHR ''t'' then Some (CHR 0x09)
      else None)"

text \<open>
  The rest of a string after its opening quote: the decoded characters and the
  input after the closing quote. A raw control character ends the decoding.
\<close>

fun json_str :: "nat \<Rightarrow> string \<Rightarrow> string \<Rightarrow> (string \<times> string) option" where
  "json_str 0 acc s = None"
| "json_str (Suc fuel) acc s =
     (case s of
        [] \<Rightarrow> None
      | c # cs \<Rightarrow>
          if c = CHR 0x22 then Some (acc, cs)
          else if c = CHR 0x5C
          then (case cs of
                  [] \<Rightarrow> None
                | e # r \<Rightarrow>
                    if e = CHR ''u''
                    then (case hex4 r of
                            Some n \<Rightarrow>
                              if n < 256 then json_str fuel (acc @ [char_of n]) (drop 4 r)
                              else None
                          | None \<Rightarrow> None)
                    else (case json_unescape e of
                            Some x \<Rightarrow> json_str fuel (acc @ [x]) r
                          | None \<Rightarrow> None))
          else if (of_char c :: nat) < 32 then None
          else json_str fuel (acc @ [c]) cs)"

text \<open>
  A number: an integer part without a leading zero, then a fraction and an exponent
  if they are complete. With either of them the number is a float.
\<close>

definition json_number :: "string \<Rightarrow> (pyval \<times> string) option" where
  "json_number s =
     (let (neg, r0) = (case s of [] \<Rightarrow> (False, [])
                       | c # cs \<Rightarrow> if c = CHR ''-'' then (True, cs) else (False, s));
          (i, ci, r1) = (case r0 of [] \<Rightarrow> (0, 0, [])
                         | c # cs \<Rightarrow> if c = CHR ''0'' then (0, 1, cs)
                                    else read_digits False 0 0 r0);
          (m, cf, r2) = (case r1 of [] \<Rightarrow> (i, 0, r1)
                         | c # cs \<Rightarrow>
                             if c = CHR ''.'' \<and> fst (snd (read_digits False i 0 cs)) \<noteq> 0
                             then read_digits False i 0 cs else (i, 0, r1));
          (e, has_exp, r3) = (case read_exponent False r2 of
                                None \<Rightarrow> (0, False, r2)
                              | Some (x, r) \<Rightarrow> (x, r \<noteq> r2, r))
      in if ci = 0 then None
         else if cf = 0 \<and> \<not> has_exp then Some (VInt (if neg then - int i else int i), r3)
         else Some (VFloat (decimal_to_float neg m (e - int cf)), r3))"

text \<open>
  The decoder proper. \<open>json_items\<close> reads the elements of an array after its
  bracket, \<open>json_members\<close> the members of an object after its brace; a repeated key
  keeps its first position and its last value. The fuel bounds the number of calls
  by the length of the input.
\<close>

fun json_val :: "nat \<Rightarrow> string \<Rightarrow> (pyval \<times> string) option"
  and json_items :: "nat \<Rightarrow> pyval list \<Rightarrow> string \<Rightarrow> (pyval list \<times> string) option"
  and json_members ::
    "nat \<Rightarrow> (string \<times> pyval) list \<Rightarrow> string \<Rightarrow> ((string \<times> pyval) list \<times> string) option"
  where
  "json_val 0 s = None"
| "json_val (Suc fuel) s =
     (case s of
        [] \<Rightarrow> None
      | c # cs \<Rightarrow>
          if c = CHR 0x22
          then (case json_str (length cs) [] cs of
                  Some (x, r) \<Rightarrow> Some (VStr x, r)
                | None \<Rightarrow> None)
          else if c = CHR ''{''
          then (if startswith (skip_ws cs) ''}'' then Some (VDict [], drop 1 (skip_ws cs))
                else (case json_members fuel [] (skip_ws cs) of
                        Some (kvs, r) \<Rightarrow> Some (VDict kvs, r)
                      | None \<Rightarrow> None))
          else if c = CHR ''[''
          then (if startswith (skip_ws cs) '']'' then Some (VList [], drop 1 (skip_ws cs))
                else (case json_items fuel [] (skip_ws cs) of
                        Some (xs, r) \<Rightarrow> Some (VList xs, r)
                      | None \<Rightarrow> None))
          else if startswith s ''null'' then Some (VNone, drop 4 s)
          else if startswith s ''true'' then Some (VBool True, drop 4 s)
          else if startswith s ''false'' then Some (VBool False, drop 5 s)
          else if startswith s ''NaN'' then Some (VFloat NaN, drop 3 s)
          else if startswith s ''Infinity'' then Some (VFloat PosInf, drop 8 s)
          else if startswith s ''-Infinity'' then Some (VFloat NegInf, drop 9 s)
          else json_number s)"
| "json_items 0 acc s = None"
| "json_items (Suc fuel) acc s =
     (case json_val fuel s of
        None \<Rightarrow> None
      | Some (v, r) \<Rightarrow>
          if startswith (skip_ws r) '','' then json_items fuel (acc @ [v]) (skip_ws (drop 1 (skip_ws r)))
          else if startswith (skip_ws r) '']'' then Some (acc @ [v], drop 1 (skip_ws r))
          else None)"
| "json_members 0 acc s = None"
| "json_members (Suc fuel) acc s =
     (case s of
        [] \<Rightarrow> None
      | c # cs \<Rightarrow>
          if c \<noteq> CHR 0x22 then None
          else (case json_str (length cs) [] cs of
                  None \<Rightarrow> None
                | Some (k, r) \<Rightarrow>
                    if \<not> startswith (skip_ws r) '':'' then None
                    else (case json_val fuel (skip_ws (drop 1 (skip_ws r))) of
                            None \<Rightarrow> None
                          | Some (v, r2) \<Rightarrow>
                              if startswith (skip_ws r2) '',''
                              then json_members fuel (dict_set acc k v)
                                     (skip_ws (drop 1 (skip_ws r2)))
                              else if startswith (skip_ws r2) ''}''
                              then Some (dict_set acc k v, drop 1 (skip_ws r2))
                              else None)))"

definition ref_json_loads :: "string \<Rightarrow> pyval option" where
  "ref_json_loads s =
     (case json_val (2 * length s + 2) (skip_ws s) of
        Some (v, r) \<Rightarrow> if skip_ws r = [] then Some v else None
      | None \<Rightarrow> None)"

subsection \<open>The CSV reader\<close>

text \<open>
  The reader of the \<open>csv\<close> module in its default dialect: comma, double quote, a
  doubled quote inside a quoted field, not strict. It is the state machine of the
  module, fed the characters of each line and then the end of the line; the limit
  on the size of a field is not modelled.
\<close>

datatype csv_state =
  START_RECORD | START_FIELD | IN_FIELD | IN_QUOTED_FIELD | QUOTE_IN_QUOTED_FIELD | EAT_CRNL

type_synonym csv_parser = "csv_state \<times> string \<times> string list"

definition is_crlf :: "char \<Rightarrow> bool" where
  "is_crlf c = (c = CHR 0x0A \<or> c = CHR 0x0D)"

text \<open>The end of a field at a line break or at the end of the line (\<open>None\<close>).\<close>

definition csv_end_field :: "string \<Rightarrow> string list \<Rightarrow> char option \<Rightarrow> csv_parser" where
  "csv_end_field fld flds c =
     (if c = None then START_RECORD else EAT_CRNL, [], flds @ [fld])"

definition csv_start_field :: "string \<Rightarrow> string list \<Rightarrow> char option \<Rightarrow> csv_parser" where
  "csv_start_field fld flds c =
     (case c of
        None \<Rightarrow> csv_end_field fld flds c
      | Some x \<Rightarrow>
          if is_crlf x then csv_end_field fld flds c
          else if x = CHR 0x22 then (IN_QUOTED_FIELD, fld, flds)
          else if x = CHR '','' then (START_FIELD, [], flds @ [fld])
          else (IN_FIELD, fld @ [x], flds))"

fun csv_step :: "csv_parser \<Rightarrow> char option \<Rightarrow> csv_parser option" where
  "csv_step (START_RECORD, fld, flds) c =
     (case c of
        None \<Rightarrow> Some (START_RECORD, fld, flds)
      | Some x \<Rightarrow> if is_crlf x then Some (EAT_CRNL, fld, flds)
                  else Some (csv_start_field fld flds c))"
| "csv_step (START_FIELD, fld, flds) c = Some (csv_start_field fld flds c)"
| "csv_step (IN_FIELD, fld, flds) c =
     (case c of
        None \<Rightarrow> Some (csv_end_field fld flds c)
      | Some x \<Rightarrow> if is_crlf x then Some (csv_end_field fld flds c)
                  else if x = CHR '','' then Some (START_FIELD, [], flds @ [fld])
                  else Some (IN_FIELD, fld @ [x], flds))"
| "csv_step (IN_QUOTED_FIELD, fld, flds) c =
     (case c of
        None \<Rightarrow> Some (IN_QUOTED_FIELD, fld, flds)
      | Some x \<Rightarrow> if x = CHR 0x22 then Some (QUOTE_IN_QUOTED_FIELD, fld, flds)
                  else Some (IN_QUOTED_FIELD, fld @ [x], flds))"
| "csv_step (QUOTE_IN_QUOTED_FIELD, fld, flds) c =
     (case c of
        None \<Rightarrow> Some (csv_end_field fld flds c)
      | Some x \<Rightarrow> if x = CHR 0x22 then Some (IN_QUOTED_FIELD, fld @ [x], flds)
                  else if x = CHR '','' then Some (START_FIELD, [], flds @ [fld])
                  else if is_crlf x then Some (csv_end_field fld flds c)
                  else Some (IN_FIELD, fld @ [x], flds))"
| "csv_step (EAT_CRNL, fld, flds) c =
     (case c of
        None \<Rightarrow> Some (START_RECORD, fld, flds)
      | Some x \<Rightarrow> if is_crlf x then Some (EAT_CRNL, fld, flds) else None)"

fun csv_chars :: "csv_parser \<Rightarrow> string \<Rightarrow> csv_parser option" where
  "csv_chars p [] = csv_step p None"
| "csv_chars p (c # cs) =
     (case csv_step p (Some c) of None \<Rightarrow> None | Some p' \<Rightarrow> csv_chars p' cs)"

definition csv_newline_error :: string where
  "csv_newline_error =
     ''new-line character seen in unquoted field - do you need to open the file with newline='' @
     [CHR 0x27, CHR 0x27] @ ''?''"

text \<open>
  One record: lines are read until the machine is back at the start of a record.
  \<open>Inr None\<close> is the end of the iteration.
\<close>

fun csv_record :: "csv_parser \<Rightarrow> string list \<Rightarrow> string + (string list \<times> string list) option" where
  "csv_record (st, fld, flds) [] =
     Inr (if fld \<noteq> [] \<or> st = IN_QUOTED_FIELD then Some (flds @ [fld], []) else None)"
| "csv_record p (line # rest) =
     (case csv_chars p line of
        None \<Rightarrow> Inl csv_newline_error
      | Some (st, fld, flds) \<Rightarrow>
          if st = START_RECORD then Inr (Some (flds, rest))
          else csv_record (st, fld, flds) rest)"

fun csv_reader :: "nat \<Rightarrow> string list \<Rightarrow> string list list \<times> string option" where
  "csv_reader 0 lines = ([], None)"
| "csv_reader (Suc fuel) lines =
     (case csv_record (START_RECORD, [], []) lines of
        Inl msg \<Rightarrow> ([], Some msg)
      | Inr None \<Rightarrow> ([], None)
      | Inr (Some (row, rest)) \<Rightarrow>
          (let (rows, err) = csv_reader fuel rest in (row # rows, err)))"

text \<open>
  \<open>csv.DictReader\<close>: the first record holds the field names, an empty record is
  skipped, a short record is filled with \<open>None\<close>.
\<close>

definition dict_row :: "string list \<Rightarrow> string list \<Rightarrow> (string \<times> string option) list" where
  "dict_row names row =
     foldl (\<lambda>d k. dict_set d k None)
       (foldl (\<lambda>d (k, v). dict_set d k (Some v)) [] (zip names row))
       (drop (length row) names)"

definition ref_DictReader ::
  "string list \<Rightarrow> (string \<times> string option) list list \<times> string option" where
  "ref_DictReader lines =
     (let (rows, err) = csv_reader (Suc (length lines)) lines
      in case rows of
           [] \<Rightarrow> ([], err)
         | names # rest \<Rightarrow> (map (dict_row names) (filter (\<lambda>r. r \<noteq> []) rest), err))"

subsection \<open>Dates and times\<close>

text \<open>
  \<open>ref_fromisoformat\<close> reads the timestamps \<open>YYYY-MM-DD\<close>, optionally followed by
  \<open>T\<close> or a blank and \<open>HH:MM:SS\<close>, by a fraction of three or six digits, and by an
  offset \<open>+HH:MM\<close> or \<open>-HH:MM\<close>, and checks the ranges of the flds. Every Python
  from 3.7 on reads these alike. Other spellings, of which the versions accept
  different ones, are not read.
\<close>

fun take_digits :: "nat \<Rightarrow> string \<Rightarrow> (nat \<times> string) option" where
  "take_digits n s =
     (if length s < n \<or> \<not> list_all is_digit (take n s) then None
      else Some (fst (read_digits False 0 0 (take n s)), drop n s))"

definition expect :: "char \<Rightarrow> string \<Rightarrow> string option" where
  "expect c s = (case s of [] \<Rightarrow> None | x # r \<Rightarrow> if x = c then Some r else None)"

definition is_leap :: "nat \<Rightarrow> bool" where
  "is_leap y = (y mod 4 = 0 \<and> (y mod 100 \<noteq> 0 \<or> y mod 400 = 0))"

definition days_in_month :: "nat \<Rightarrow> nat \<Rightarrow> nat" where
  "days_in_month y m =
     (if m = 2 then (if is_leap y then 29 else 28)
      else if m = 4 \<or> m = 6 \<or> m = 9 \<or> m = 11 then 30 else 31)"

definition read_date :: "string \<Rightarrow> ((nat \<times> nat \<times> nat) \<times> string) option" where
  "read_date s =
     Option.bind (take_digits 4 s) (\<lambda>(y, r1).
     Option.bind (expect CHR ''-'' r1) (\<lambda>r2.
     Option.bind (take_digits 2 r2) (\<lambda>(m, r3).
     Option.bind (expect CHR ''-'' r3) (\<lambda>r4.
     Option.bind (take_digits 2 r4) (\<lambda>(d, r5).
       if 1 \<le> y \<and> 1 \<le> m \<and> m \<le> 12 \<and> 1 \<le> d \<and> d \<le> days_in_month y m
       then Some ((y, m, d), r5) else None)))))"

definition read_hms :: "string \<Rightarrow> ((nat \<times> nat \<times> nat) \<times> string) option" where
  "read_hms s =
     Option.bind (take_digits 2 s) (\<lambda>(h, r1).
     Option.bind (expect CHR '':'' r1) (\<lambda>r2.
     Option.bind (take_digits 2 r2) (\<lambda>(mi, r3).
     Option.bind (expect CHR '':'' r3) (\<lambda>r4.
     Option.bind (take_digits 2 r4) (\<lambda>(sec, r5).
       if h < 24 \<and> mi < 60 \<and> sec < 60 then Some ((h, mi, sec), r5) else None)))))"

text \<open>The fraction of a second, in microseconds.\<close>

definition read_fraction :: "string \<Rightarrow> (nat \<times> string) option" where
  "read_fraction s =
     (case s of
        [] \<Rightarrow> Some (0, [])
      | c # cs \<Rightarrow>
          if c = CHR ''.''
          then (case take_digits 6 cs of
                  Some (us, r) \<Rightarrow> Some (us, r)
                | None \<Rightarrow>
                    (case take_digits 3 cs of
                       Some (ms, r) \<Rightarrow> Some (ms * 1000, r)
                     | None \<Rightarrow> None))
          else Some (0, s))"

text \<open>The offset in seconds, \<open>None\<close> inside for a timestamp without offset.\<close>

definition read_offset :: "string \<Rightarrow> int option option" where
  "read_offset s =
     (case s of
        [] \<Rightarrow> Some None
      | c # cs \<Rightarrow>
          if c = CHR ''+'' \<or> c = CHR ''-''
          then Option.bind (take_digits 2 cs) (\<lambda>(h, r1).
               Option.bind (expect CHR '':'' r1) (\<lambda>r2.
               Option.bind (take_digits 2 r2) (\<lambda>(mi, r3).
                 if r3 = [] \<and> h < 24 \<and> mi < 60
                 then Some (Some ((if c = CHR ''-'' then - 1 else 1) *
                                  (int h * 3600 + int mi * 60)))
                 else None)))
          else None)"

definition ref_fromisoformat :: "string \<Rightarrow> datetime option" where
  "ref_fromisoformat s =
     (case read_date s of
        None \<Rightarrow> None
      | Some ((y, m, d), r) \<Rightarrow>
          (case r of
             [] \<Rightarrow>
               Some \<lparr>dt_year = y, dt_month = m, dt_day = d, dt_hour = 0, dt_minute = 0,
                     dt_second = 0, dt_microsecond = 0, dt_utcoffset = None\<rparr>
           | sep # t \<Rightarrow>
               if sep \<noteq> CHR ''T'' \<and> sep \<noteq> CHR '' '' then None
               else Option.bind (read_hms t) (\<lambda>((h, mi, sec), r1).
                    Option.bind (read_fraction r1) (\<lambda>(us, r2).
                    Option.bind (read_offset r2) (\<lambda>off.
                      Some \<lparr>dt_year = y, dt_month = m, dt_day = d, dt_hour = h,
                            dt_minute = mi, dt_second = sec, dt_microsecond = us,
                            dt_utcoffset = off\<rparr>)))))"

text \<open>Days since 1970-01-01 of a date of the proleptic Gregorian calendar, and back.\<close>

definition days_from_civil :: "int \<Rightarrow> int \<Rightarrow> int \<Rightarrow> int" where
  "days_from_civil y m d =
     (let y' = (if m \<le> 2 then y - 1 else y);
          era = y' div 400;
          yoe = y' - era * 400;
          doy = (153 * (if 2 < m then m - 3 else m + 9) + 2) div 5 + d - 1;
          doe = yoe * 365 + yoe div 4 - yoe div 100 + doy
      in era * 146097 + doe - 719468)"

definition civil_from_days :: "int \<Rightarrow> int \<times> int \<times> int" where
  "civil_from_days z0 =
     (let z = z0 + 719468;
          era = z div 146097;
          doe = z - era * 146097;
          yoe = (doe - doe div 1460 + doe div 36524 - doe div 146096) div 365;
          doy = doe - (365 * yoe + yoe div 4 - yoe div 100);
          mp = (5 * doy + 2) div 153;
          d = doy - (153 * mp + 2) div 5 + 1;
          m = (if mp < 10 then mp + 3 else mp - 9)
      in (yoe + era * 400 + (if m \<le> 2 then 1 else 0), m, d))"

text \<open>
  \<open>dt.astimezone(timezone.utc)\<close> on a host whose local zone is \<open>local\<close> seconds east
  of UTC the whole year: a timestamp without offset is taken as local time.
\<close>

definition ref_astimezone_utc :: "int \<Rightarrow> datetime \<Rightarrow> exn + datetime" where
  "ref_astimezone_utc local dt =
     (let off = (case dt_utcoffset dt of None \<Rightarrow> local | Some x \<Rightarrow> x);
          t = days_from_civil (int (dt_year dt)) (int (dt_month dt)) (int (dt_day dt)) * 86400 +
              int (dt_hour dt) * 3600 + int (dt_minute dt) * 60 + int (dt_second dt) - off;
          (y, m, d) = civil_from_days (t div 86400);
          r = t mod 86400
      in if y < 1 \<or> 9999 < y then Inl OverflowError
         else Inr \<lparr>dt_year = nat y, dt_month = nat m, dt_day = nat d,
                    dt_hour = nat (r div 3600), dt_minute = nat (r mod 3600 div 60),
                    dt_second = nat (r mod 60), dt_microsecond = dt_microsecond dt,
                    dt_utcoffset = Some 0\<rparr>)"

definition pad :: "nat \<Rightarrow> nat \<Rightarrow> string" where
  "pad w n = replicate (w - length (str_nat n)) CHR ''0'' @ str_nat n"

definition ref_isoformat :: "datetime \<Rightarrow> string" where
  "ref_isoformat dt =
     pad 4 (dt_year dt) @ ''-'' @ pad 2 (dt_month dt) @ ''-'' @ pad 2 (dt_day dt) @ ''T'' @
     pad 2 (dt_hour dt) @ '':'' @ pad 2 (dt_minute dt) @ '':'' @ pad 2 (dt_second dt) @
     (if dt_microsecond dt = 0 then [] else ''.'' @ pad 6 (dt_microsecond dt)) @
     (case dt_utcoffset dt of
        None \<Rightarrow> []
      | Some off \<Rightarrow>
          (if off < 0 then ''-'' else ''+'') @ pad 2 (nat (\<bar>off\<bar> div 3600)) @ '':'' @
          pad 2 (nat (\<bar>off\<bar> mod 3600 div 60)) @
          (if \<bar>off\<bar> mod 60 = 0 then [] else '':'' @ pad 2 (nat (\<bar>off\<bar> mod 60))))"

subsection \<open>The library\<close>

text \<open>\<open>py_lib local\<close> is the library of a host \<open>local\<close> seconds east of UTC.\<close>

definition py_lib :: "int \<Rightarrow> pylib" where
  "py_lib local =
     \<lparr>json_loads = ref_json_loads, json_dumps = ref_json_dumps,
      csv_DictReader = ref_DictReader, float_of_str = ref_float_of_str,
      str_float = repr_float, repr_val = ref_repr,
      fromisoformat = ref_fromisoformat, astimezone_utc = ref_astimezone_utc local,
      isoformat = ref_isoformat\<rparr>"

section \<open>Example inputs\<close>

text \<open>
  Inputs on which the program is run below: batches as the decoders deliver them, and
  raw texts in the two formats.
\<close>

definition two_records :: "pyval list" where
  "two_records =
     [VDict [(''feedback_id'', VStr ''FB601''), (''language'', VStr ''en''),
             (''feedback_text'', VStr ''The new interface is good and intuitive''),
             (''sentiment_score'', VNone), (''timestamp'', VStr ''2023-03-21T08:00:00Z'')],
      VDict [(''feedback_id'', VStr ''FB602''), (''language'', VStr ''es''),
             (''feedback_text'', VStr ''Bueno''),
             (''sentiment_score'', VFloat (Fin (1 / 2))),
             (''timestamp'', VStr ''2023-03-21T08:10:00+02:00'')]]"

definition two_processed :: "pyval list" where
  "two_processed =
     [VDict [(''feedback_id'', VStr ''FB601''), (''language'', VStr ''en''),
             (''feedback_text'', VStr ''The new interface is good and intuitive''),
             (''timestamp'', VStr ''2023-03-21T08:00:00+00:00''),
             (''sentiment_score'', VFloat (Fin (dec2 14)))],
      VDict [(''feedback_id'', VStr ''FB602''), (''language'', VStr ''es''),
             (''feedback_text'', VStr ''[Translated from es] Bueno''),
             (''timestamp'', VStr ''2023-03-21T06:10:00+00:00''),
             (''sentiment_score'', VFloat (Fin (1 / 2)))]]"

text \<open>A CSV text whose one row has an empty \<open>feedback_text\<close> cell, and its decoded batch.\<close>

definition csv_empty_text :: string where
  "csv_empty_text =
     ''feedback_id,language,feedback_text,sentiment_score,timestamp'' @ [CHR 0x0A] @
     ''FB1,en,,null,2023-03-21T08:00:00Z''"

definition empty_text_record :: "(string \<times> pyval) list" where
  "empty_text_record =
     [(''feedback_id'', VStr ''FB1''), (''language'', VStr ''en''),
      (''feedback_text'', VStr []), (''sentiment_score'', VNone),
      (''timestamp'', VStr ''2023-03-21T08:00:00Z'')]"

text \<open>A CSV text whose one row has the score cell \<open>abc\<close>.\<close>

definition csv_score_abc :: string where
  "csv_score_abc =
     ''feedback_id,language,feedback_text,sentiment_score,timestamp'' @ [CHR 0x0A] @
     ''FB1,en,good,abc,2023-03-21T08:00:00Z''"

text \<open>A record whose score is the string \<open>abc\<close>, as a caller of \<open>validate_data\<close> can pass it.\<close>

definition score_abc_record :: "(string \<times> pyval) list" where
  "score_abc_record =
     [(''feedback_id'', VStr ''FB1''), (''language'', VStr ''en''),
      (''feedback_text'', VStr ''good''), (''sentiment_score'', VStr ''abc''),
      (''timestamp'', VStr ''2023-03-21T08:00:00Z'')]"

text \<open>A JSON text whose one record has the score \<open>"abc"\<close>.\<close>

definition json_score_abc :: string where
  "json_score_abc =
     ''{'' @ [CHR 0x22] @ ''feedbacks'' @ [CHR 0x22] @ '': [{'' @ [CHR 0x22] @ ''feedback_id'' @ [CHR 0x22] @ '': '' @ [CHR 0x22] @ ''F1'' @ [CHR 0x22] @ '', '' @ [CHR 0x22] @ ''language'' @ [CHR 0x22] @ '': '' @ [CHR 0x22] @ ''en'' @ [CHR 0x22] @ '', '' @ [CHR 0x22] @ ''feedback_text'' @ [CHR 0x22] @ '': '' @ [CHR 0x22] @ ''good'' @ [CHR 0x22] @ '', '' @ [CHR 0x22] @ ''sentiment_score'' @ [CHR 0x22] @ '': '' @ [CHR 0x22] @ ''abc'' @ [CHR 0x22] @ '', '' @ [CHR 0x22] @ ''timestamp'' @ [CHR 0x22] @ '': '' @ [CHR 0x22] @ ''2023-03-21T08:00:00Z'' @ [CHR 0x22] @ ''}]}''"

text \<open>
  A CSV row, as the reader yields it, whose score cell is \<open>NULL\<close>, and a JSON record
  whose score is the string \<open>null\<close>; after decoding both are \<open>null_score_record\<close>.
\<close>

definition csv_row_NULL :: "(string \<times> string option) list" where
  "csv_row_NULL =
     [(''feedback_id'', Some ''FB1''), (''language'', Some ''en''),
      (''feedback_text'', Some ''good service''), (''sentiment_score'', Some ''NULL''),
      (''timestamp'', Some ''2023-03-21T08:00:00Z'')]"

definition json_record_null :: "(string \<times> pyval) list" where
  "json_record_null =
     [(''feedback_id'', VStr ''FB1''), (''language'', VStr ''en''),
      (''feedback_text'', VStr ''good service''), (''sentiment_score'', VStr ''null''),
      (''timestamp'', VStr ''2023-03-21T08:00:00Z'')]"

definition null_score_record :: "(string \<times> pyval) list" where
  "null_score_record =
     [(''feedback_id'', VStr ''FB1''), (''language'', VStr ''en''),
      (''feedback_text'', VStr ''good service''), (''sentiment_score'', VNone),
      (''timestamp'', VStr ''2023-03-21T08:00:00Z'')]"

text \<open>JSON texts whose one record has the score \<open>""\<close> and the score \<open>"NULL"\<close>.\<close>

definition json_score_empty :: string where
  "json_score_empty =
     ''{'' @ [CHR 0x22] @ ''feedbacks'' @ [CHR 0x22] @ '': [{'' @ [CHR 0x22] @ ''feedback_id'' @ [CHR 0x22] @ '': '' @ [CHR 0x22] @ ''F1'' @ [CHR 0x22] @ '', '' @ [CHR 0x22] @ ''language'' @ [CHR 0x22] @ '': '' @ [CHR 0x22] @ ''en'' @ [CHR 0x22] @ '', '' @ [CHR 0x22] @ ''feedback_text'' @ [CHR 0x22] @ '': '' @ [CHR 0x22] @ ''good'' @ [CHR 0x22] @ '', '' @ [CHR 0x22] @ ''sentiment_score'' @ [CHR 0x22] @ '': '' @ [CHR 0x22] @ [CHR 0x22] @ '', '' @ [CHR 0x22] @ ''timestamp'' @ [CHR 0x22] @ '': '' @ [CHR 0x22] @ ''2023-03-21T08:00:00Z'' @ [CHR 0x22] @ ''}]}''"

definition json_score_NULL :: string where
  "json_score_NULL =
     ''{'' @ [CHR 0x22] @ ''feedbacks'' @ [CHR 0x22] @ '': [{'' @ [CHR 0x22] @ ''feedback_id'' @ [CHR 0x22] @ '': '' @ [CHR 0x22] @ ''F1'' @ [CHR 0x22] @ '', '' @ [CHR 0x22] @ ''language'' @ [CHR 0x22] @ '': '' @ [CHR 0x22] @ ''en'' @ [CHR 0x22] @ '', '' @ [CHR 0x22] @ ''feedback_text'' @ [CHR 0x22] @ '': '' @ [CHR 0x22] @ ''good'' @ [CHR 0x22] @ '', '' @ [CHR 0x22] @ ''sentiment_score'' @ [CHR 0x22] @ '': '' @ [CHR 0x22] @ ''NULL'' @ [CHR 0x22] @ '', '' @ [CHR 0x22] @ ''timestamp'' @ [CHR 0x22] @ '': '' @ [CHR 0x22] @ ''2023-03-21T08:00:00Z'' @ [CHR 0x22] @ ''}]}''"

text \<open>
  A CSV text whose one row stops after the first cell, and its decoded batch: the
  reader fills the missing cells with \<open>None\<close>.
\<close>

definition csv_short_row :: string where
  "csv_short_row =
     ''feedback_id,language,feedback_text,sentiment_score,timestamp'' @ [CHR 0x0A] @ ''FB1''"

definition short_row_record :: "(string \<times> pyval) list" where
  "short_row_record =
     [(''feedback_id'', VStr ''FB1''), (''language'', VNone), (''feedback_text'', VNone),
      (''sentiment_score'', VNone), (''timestamp'', VNone)]"

text \<open>A JSON text whose one record has the number 5 as its \<open>feedback_text\<close>.\<close>

definition json_numeric_text :: string where
  "json_numeric_text =
     ''{'' @ [CHR 0x22] @ ''feedbacks'' @ [CHR 0x22] @ '': [{'' @ [CHR 0x22] @ ''feedback_id'' @ [CHR 0x22] @ '': '' @ [CHR 0x22] @ ''F1'' @ [CHR 0x22] @ '', '' @ [CHR 0x22] @ ''language'' @ [CHR 0x22] @ '': '' @ [CHR 0x22] @ ''en'' @ [CHR 0x22] @ '', '' @ [CHR 0x22] @ ''feedback_text'' @ [CHR 0x22] @ '': 5, '' @ [CHR 0x22] @ ''timestamp'' @ [CHR 0x22] @ '': '' @ [CHR 0x22] @ ''2023-03-21T08:00:00Z'' @ [CHR 0x22] @ ''}]}''"

definition numeric_text_record :: "(string \<times> pyval) list" where
  "numeric_text_record =
     [(''feedback_id'', VStr ''F1''), (''language'', VStr ''en''), (''feedback_text'', VInt 5),
      (''timestamp'', VStr ''2023-03-21T08:00:00Z'')]"

text \<open>Records with a \<open>null\<close> language and with a number as the timestamp.\<close>

definition null_language_record :: "(string \<times> pyval) list" where
  "null_language_record =
     [(''feedback_id'', VStr ''F1''), (''language'', VNone), (''feedback_text'', VStr ''ok''),
      (''timestamp'', VStr ''2023-03-21T08:00:00Z'')]"

definition numeric_timestamp_record :: "(string \<times> pyval) list" where
  "numeric_timestamp_record =
     [(''feedback_id'', VStr ''F1''), (''language'', VStr ''en''), (''feedback_text'', VStr ''ok''),
      (''timestamp'', VInt 20230321)]"

text \<open>A CSV text whose one row has a timestamp without offset.\<close>

definition csv_naive_timestamp :: string where
  "csv_naive_timestamp =
     ''feedback_id,language,feedback_text,sentiment_score,timestamp'' @ [CHR 0x0A] @
     ''FB1,en,good,,2023-03-21T08:00:00''"

text \<open>
  The same record as a CSV text with the score cell \<open>NULL\<close>, and as a JSON text with
  the score \<open>"null"\<close>.
\<close>

definition csv_null_score :: string where
  "csv_null_score =
     ''feedback_id,language,feedback_text,sentiment_score,timestamp'' @ [CHR 0x0A] @
     ''FB1,en,good service,NULL,2023-03-21T08:00:00Z''"

definition json_null_score :: string where
  "json_null_score =
     ''{'' @ [CHR 0x22] @ ''feedbacks'' @ [CHR 0x22] @ '': [{'' @ [CHR 0x22] @ ''feedback_id'' @ [CHR 0x22] @ '': '' @ [CHR 0x22] @ ''FB1'' @ [CHR 0x22] @ '', '' @ [CHR 0x22] @ ''language'' @ [CHR 0x22] @ '': '' @ [CHR 0x22] @ ''en'' @ [CHR 0x22] @ '', '' @ [CHR 0x22] @ ''feedback_text'' @ [CHR 0x22] @ '': '' @ [CHR 0x22] @ ''good service'' @ [CHR 0x22] @ '', '' @ [CHR 0x22] @ ''sentiment_score'' @ [CHR 0x22] @ '': '' @ [CHR 0x22] @ ''null'' @ [CHR 0x22] @ '', '' @ [CHR 0x22] @ ''timestamp'' @ [CHR 0x22] @ '': '' @ [CHR 0x22] @ ''2023-03-21T08:00:00Z'' @ [CHR 0x22] @ ''}]}''"

section \<open>Bounds of the float arithmetic\<close>

lemma rhe_div_upper: "0 < d \<Longrightarrow> n \<le> N * d \<Longrightarrow> rhe_div n d \<le> N"
proof -
  assume d: "0 < d" and n: "n \<le> N * d"
  have q: "n div d \<le> N" using d n
    by (metis zdiv_mono1 nonzero_mult_div_cancel_right less_irrefl)
  show ?thesis
  proof (cases "n div d = N")
    case True
    have "n = d * (n div d) + n mod d" by simp
    with True n have "n mod d \<le> 0" by (simp add: mult.commute)
    with d have "2 * (n mod d) < d" by linarith
    then show ?thesis using True by (simp add: rhe_div_def Let_def)
  next
    case False
    with q have "n div d + 1 \<le> N" by simp
    then show ?thesis using q by (simp add: rhe_div_def Let_def)
  qed
qed

lemma rhe_div_lower: "0 < d \<Longrightarrow> N * d \<le> n \<Longrightarrow> N \<le> rhe_div n d"
proof -
  assume d: "0 < d" and n: "N * d \<le> n"
  have "N \<le> n div d" using d n
    by (metis zdiv_mono1 nonzero_mult_div_cancel_right less_irrefl)
  then show ?thesis by (simp add: rhe_div_def Let_def)
qed

lemma binexp_le0: "0 < b \<Longrightarrow> a \<le> b \<Longrightarrow> binexp a b \<le> 0"
  by (simp add: binexp_def)

text \<open>A quotient of magnitude at most one rounds to a double of magnitude at most one.\<close>

lemma b64_unit:
  assumes d: "0 < d" and n: "\<bar>n\<bar> \<le> d"
  shows "\<bar>b64 n d\<bar> \<le> 1"
proof (cases "n = 0")
  case True
  then show ?thesis by (simp add: b64_def)
next
  case False
  define e where "e = max (binexp (nat \<bar>n\<bar>) (nat d)) (- 1022)"
  define s where "s = nat (52 - e)"
  have "binexp (nat \<bar>n\<bar>) (nat d) \<le> 0" using d n by (intro binexp_le0) auto
  then have e0: "e \<le> 0" by (simp add: e_def)
  then have s0: "0 \<le> 52 - e" by simp
  have val: "b64 n d = of_int (rhe_div (n * 2 ^ s) d) / 2 ^ s"
    using False s0 by (simp add: b64_def Let_def e_def s_def)
  have up: "rhe_div (n * 2 ^ s) d \<le> 2 ^ s"
    using d n by (intro rhe_div_upper) (auto simp: mult.commute intro!: mult_right_mono)
  have "- d \<le> n" using n by linarith
  then have "- (2 ^ s) * d \<le> n * 2 ^ s"
    by (metis mult.commute mult_minus_left mult_right_mono zero_le_numeral zero_le_power)
  then have lo: "- (2 ^ s) \<le> rhe_div (n * 2 ^ s) d"
    using d by (intro rhe_div_lower) auto
  have "\<bar>rhe_div (n * 2 ^ s) d\<bar> \<le> 2 ^ s" using up lo by linarith
  then have "\<bar>(of_int (rhe_div (n * 2 ^ s) d) :: rat)\<bar> \<le> 2 ^ s"
    by (metis of_int_abs of_int_le_iff of_int_numeral of_int_power)
  then show ?thesis unfolding val by (simp add: abs_le_iff field_simps)
qed

lemma rhe_bound: "\<bar>x\<bar> \<le> of_int N \<Longrightarrow> \<bar>rhe x\<bar> \<le> N"
proof -
  assume a: "\<bar>x\<bar> \<le> of_int N"
  then have u: "x \<le> of_int N" and l: "of_int (- N) \<le> x" by auto
  have fl: "\<lfloor>x\<rfloor> \<le> N" using u by (simp add: floor_le_iff)
  have fl2: "- N \<le> \<lfloor>x\<rfloor>" using l by (simp add: le_floor_iff)
  show ?thesis
  proof (cases "\<lfloor>x\<rfloor> = N")
    case True
    then have "x - of_int \<lfloor>x\<rfloor> \<le> 0" using u by simp
    then have "x - of_int \<lfloor>x\<rfloor> < 1 / 2" by linarith
    then show ?thesis using True fl2 by (simp add: rhe_def Let_def)
  next
    case False
    then have "\<lfloor>x\<rfloor> + 1 \<le> N" using fl by simp
    then show ?thesis using fl fl2 by (auto simp add: rhe_def Let_def)
  qed
qed

lemma py_round2_unit: "\<bar>x\<bar> \<le> 1 \<Longrightarrow> \<exists>q. py_round2 (Fin x) = Fin q \<and> \<bar>q\<bar> \<le> 1"
proof -
  assume "\<bar>x\<bar> \<le> 1"
  then have "\<bar>100 * x\<bar> \<le> of_int 100" by simp
  then have "\<bar>rhe (100 * x)\<bar> \<le> 100" by (rule rhe_bound)
  then have "\<bar>dec2 (rhe (100 * x))\<bar> \<le> 1" unfolding dec2_def by (intro b64_unit) auto
  then show ?thesis by simp
qed

lemma rhe_0: "rhe 0 = 0"
  by (simp add: rhe_def)

lemma dec2_0: "dec2 0 = 0"
  by (simp add: dec2_def b64_def)

lemma py_round2_0: "py_round2 (Fin 0) = Fin 0"
  by (simp add: rhe_0 dec2_0)

section \<open>The sentiment scorer\<close>

lemma distinct_positive_words: "distinct positive_words"
  by (simp add: positive_words_def)

lemma distinct_negative_words: "distinct negative_words"
  by (simp add: negative_words_def)

text \<open>
  A sum over a lexicon without repetitions counts the lexicon entries found among the
  tokens, so it cannot exceed the number of tokens.
\<close>

lemma lexicon_hits_card:
  assumes "distinct ws"
  shows "length (filter (\<lambda>w. w \<in> set ts) ws) = card (set ws \<inter> set ts)"
proof -
  have "distinct (filter (\<lambda>w. w \<in> set ts) ws)" using assms by simp
  then have "length (filter (\<lambda>w. w \<in> set ts) ws) = card (set (filter (\<lambda>w. w \<in> set ts) ws))"
    by (rule distinct_card [symmetric])
  also have "set (filter (\<lambda>w. w \<in> set ts) ws) = set ws \<inter> set ts" by auto
  finally show ?thesis .
qed

lemma lexicon_hits_le:
  assumes "distinct ws"
  shows "length (filter (\<lambda>w. w \<in> set ts) ws) \<le> length ts"
proof -
  have "card (set ws \<inter> set ts) \<le> card (set ts)" by (intro card_mono) auto
  also have "\<dots> \<le> length ts" by (rule card_length)
  finally show ?thesis by (simp add: lexicon_hits_card [OF assms])
qed

text \<open>
  Claim C2, as the code has it. For every text, with \<open>tokens\<close> the white-space split
  of the lower-cased text: the positive count is the number of entries of the
  positive lexicon that occur among the tokens, each entry counted once however
  many tokens equal it; the negative count likewise; the total is the number of
  tokens; and the score is \<open>round((positive - negative) / total, 2)\<close> when the total
  is positive and 0.0 otherwise. An entry occurs among the tokens when a whole token
  equals it.
\<close>

theorem scorer_counts_lexicon_entries:
  "calculate_sentiment_score text =
     (let tokens = py_split (py_lower text);
          p = card (set positive_words \<inter> set tokens);
          n = card (set negative_words \<inter> set tokens);
          t = length tokens
      in (if t > 0 then py_round2 (py_truediv (int p - int n) (int t)) else Fin 0, p, n, t))"
  by (simp add: calculate_sentiment_score_def Let_def rhe_0 dec2_0
      lexicon_hits_card [OF distinct_positive_words]
      lexicon_hits_card [OF distinct_negative_words])

text \<open>
  The text \<open>I am unhappy\<close> has three tokens; \<open>unhappy\<close> is a negative entry and is
  not counted for the positive entry \<open>happy\<close>. The score is -0.33.
\<close>

theorem scorer_counts_lexicon_entries_witness:
  "calculate_sentiment_score ''I am unhappy'' = (Fin (dec2 (- 33)), 0, 1, 3)"
proof -
  have "(let tokens = py_split (py_lower ''I am unhappy'');
             p = card (set positive_words \<inter> set tokens);
             n = card (set negative_words \<inter> set tokens);
             t = length tokens
         in (if t > 0 then py_round2 (py_truediv (int p - int n) (int t)) else Fin 0, p, n, t))
        = (Fin (dec2 (- 33)), 0, 1, 3)"
    by code_simp
  then show ?thesis by (simp only: scorer_counts_lexicon_entries)
qed

text \<open>
  Claim C2 as stated fails on a repeated word. In \<open>good good\<close> two tokens equal an
  entry of the positive lexicon, and the function returns the positive count 1 and
  the score 0.5.
\<close>

theorem scorer_repeated_word_counterexample:
  "calculate_sentiment_score ''good good'' = (Fin (dec2 50), 1, 0, 2) \<and>
   token_occurrences positive_words (py_split (py_lower ''good good'')) = 2 \<and>
   fst (snd (calculate_sentiment_score ''good good'')) \<noteq>
     token_occurrences positive_words (py_split (py_lower ''good good''))"
  by code_simp

text \<open>
  Claim C7. For every text the score returned by \<open>calculate_sentiment_score\<close> is a
  finite float between -1 and 1, and a text with no token gives the score 0.0 with
  the three counts 0: the division is not reached.
\<close>

theorem score_in_unit_interval:
  "(\<exists>q. fst (calculate_sentiment_score text) = Fin q \<and> - 1 \<le> q \<and> q \<le> 1) \<and>
   (py_split (py_lower text) = [] \<longrightarrow> calculate_sentiment_score text = (Fin 0, 0, 0, 0))"
proof
  define ts where "ts = py_split (py_lower text)"
  define p where "p = length (filter (\<lambda>w. w \<in> set ts) positive_words)"
  define n where "n = length (filter (\<lambda>w. w \<in> set ts) negative_words)"
  have p: "p \<le> length ts"
    unfolding p_def by (rule lexicon_hits_le [OF distinct_positive_words])
  have n: "n \<le> length ts"
    unfolding n_def by (rule lexicon_hits_le [OF distinct_negative_words])
  show "\<exists>q. fst (calculate_sentiment_score text) = Fin q \<and> - 1 \<le> q \<and> q \<le> 1"
  proof (cases "ts = []")
    case True
    then show ?thesis
      by (simp add: calculate_sentiment_score_def Let_def ts_def [symmetric] rhe_0 dec2_0)
  next
    case False
    then have pos: "0 < int (length ts)" by simp
    have "\<bar>int p - int n\<bar> \<le> int (length ts)" using p n by linarith
    then have "\<bar>b64 (int p - int n) (int (length ts))\<bar> \<le> 1"
      using pos by (intro b64_unit)
    then obtain q where
      q: "py_round2 (Fin (b64 (int p - int n) (int (length ts)))) = Fin q" "\<bar>q\<bar> \<le> 1"
      using py_round2_unit by blast
    have "fst (calculate_sentiment_score text) =
            py_round2 (Fin (b64 (int p - int n) (int (length ts))))"
      using False
      by (simp add: calculate_sentiment_score_def Let_def ts_def [symmetric] p_def n_def
          py_truediv_def)
    with q show ?thesis by (auto simp: abs_le_iff)
  qed
next
  show "py_split (py_lower text) = [] \<longrightarrow> calculate_sentiment_score text = (Fin 0, 0, 0, 0)"
    by (simp add: calculate_sentiment_score_def Let_def rhe_0 dec2_0)
qed

text \<open>A text of blanks and a tabulator has no token.\<close>

theorem score_in_unit_interval_witness:
  "py_split (py_lower [CHR '' '', CHR 0x09, CHR '' '']) = [] \<and>
   calculate_sentiment_score [CHR '' '', CHR 0x09, CHR '' ''] = (Fin 0, 0, 0, 0)"
proof -
  have e: "py_split (py_lower [CHR '' '', CHR 0x09, CHR '' '']) = []" by code_simp
  have c: "calculate_sentiment_score [CHR '' '', CHR 0x09, CHR '' ''] = (Fin 0, 0, 0, 0)"
    using score_in_unit_interval [of "[CHR '' '', CHR 0x09, CHR '' '']"] e by blast
  show ?thesis using e c by simp
qed

section \<open>The validator\<close>

text \<open>
  Each of the four checks either raises or appends messages that do not depend on the
  state it is given. The same then holds for the loop body and for the loop.
\<close>

lemma extend_Nil: "extend s [] = s"
  by (simp add: extend_def)

lemma extend_extend: "extend (extend s a) b = extend s (a @ b)"
  by (auto simp: extend_def)

lemma flag_extend: "flag s m = extend s [m]"
  by (simp add: flag_def extend_def)

lemma bindE_Inr: "bindE (Inr x) f = f x"
  by (simp add: bindE_def)

lemma bindE_Inl: "bindE (Inl e) f = Inl e"
  by (simp add: bindE_def)

lemma bindE_eq_Inr: "bindE m f = Inr y \<longleftrightarrow> (\<exists>x. m = Inr x \<and> f x = Inr y)"
  by (cases m) (simp_all add: bindE_def)

lemma check_missing_shape:
  "check_missing n r st = Inr st' \<Longrightarrow>
   \<exists>missing. missing_fields required_fields r = Inr missing \<and>
     (\<forall>s. check_missing n r s =
        Inr (extend s (if missing \<noteq> [] then [missing_message missing n] else [])))"
  by (auto simp: check_missing_def bindE_eq_Inr bindE_Inr flag_extend extend_Nil)

lemma check_score_shape:
  "check_score L n r st = Inr st' \<Longrightarrow>
   \<exists>new. (\<forall>s. check_score L n r s = Inr (extend s new)) \<and>
     set new \<subseteq> {score_range_message n, score_type_message n}"
proof -
  assume a: "check_score L n r st = Inr st'"
  then obtain v where v: "item_if_present ''sentiment_score'' r = Inr v"
    by (auto simp: check_score_def bindE_eq_Inr)
  show ?thesis
  proof (cases v)
    case None
    with v have "\<forall>s. check_score L n r s = Inr (extend s [])"
      by (simp add: check_score_def bindE_Inr extend_Nil)
    then show ?thesis by (intro exI [of _ "[]"]) simp
  next
    case (Some x)
    show ?thesis
    proof (cases "x = VNone")
      case True
      with v Some have "\<forall>s. check_score L n r s = Inr (extend s [])"
        by (simp add: check_score_def bindE_Inr extend_Nil)
      then show ?thesis by (intro exI [of _ "[]"]) simp
    next
      case False
      show ?thesis
      proof (cases "py_float L x")
        case (Inr score)
        with v Some False have
          "\<forall>s. check_score L n r s =
             Inr (extend s (if out_of_range score then [score_range_message n] else []))"
          by (simp add: check_score_def bindE_Inr extend_Nil flag_extend)
        then show ?thesis
          by (intro exI [of _ "if out_of_range score then [score_range_message n] else []"]) auto
      next
        case (Inl e)
        with a v Some False have e: "(\<exists>msg. e = ValueError msg) \<or> e = TypeError"
          by (cases e) (simp_all add: check_score_def bindE_Inr)
        with v Some False Inl have
          "\<forall>s. check_score L n r s = Inr (extend s [score_type_message n])"
          by (auto simp: check_score_def bindE_Inr flag_extend)
        then show ?thesis by (intro exI [of _ "[score_type_message n]"]) simp
      qed
    qed
  qed
qed

lemma check_language_shape:
  "check_language n r st = Inr st' \<Longrightarrow>
   \<exists>new. (\<forall>s. check_language n r s = Inr (extend s new)) \<and> set new \<subseteq> {language_message n}"
proof -
  assume a: "check_language n r st = Inr st'"
  then obtain v where v: "item_if_present ''language'' r = Inr v"
    by (auto simp: check_language_def bindE_eq_Inr)
  show ?thesis
  proof (cases "\<exists>x. v = Some x \<and> py_truthy x")
    case False
    with v have "\<forall>s. check_language n r s = Inr (extend s [])"
      by (cases v) (auto simp: check_language_def bindE_Inr extend_Nil)
    then show ?thesis by (intro exI [of _ "[]"]) simp
  next
    case True
    then obtain x where x: "v = Some x" "py_truthy x" by blast
    with a v obtain m where m: "re_match_language x = Inr m"
      by (auto simp: check_language_def bindE_Inr bindE_eq_Inr)
    with v x have
      "\<forall>s. check_language n r s = Inr (extend s (if \<not> m then [language_message n] else []))"
      by (simp add: check_language_def bindE_Inr extend_Nil flag_extend)
    then show ?thesis
      by (intro exI [of _ "if \<not> m then [language_message n] else []"]) auto
  qed
qed

lemma check_timestamp_shape:
  "check_timestamp L n r st = Inr st' \<Longrightarrow>
   \<exists>new. (\<forall>s. check_timestamp L n r s = Inr (extend s new)) \<and> set new \<subseteq> {timestamp_message n}"
proof -
  assume a: "check_timestamp L n r st = Inr st'"
  then obtain v where v: "item_if_present ''timestamp'' r = Inr v"
    by (auto simp: check_timestamp_def bindE_eq_Inr)
  show ?thesis
  proof (cases "\<exists>x. v = Some x \<and> py_truthy x")
    case False
    with v have "\<forall>s. check_timestamp L n r s = Inr (extend s [])"
      by (cases v) (auto simp: check_timestamp_def bindE_Inr extend_Nil)
    then show ?thesis by (intro exI [of _ "[]"]) simp
  next
    case True
    then obtain x where x: "v = Some x" "py_truthy x" by blast
    with a v obtain t where t: "x = VStr t"
      by (cases x) (simp_all add: check_timestamp_def bindE_Inr)
    with v x have
      "\<forall>s. check_timestamp L n r s =
         Inr (extend s (if fromisoformat L (replace_Z t) = None then [timestamp_message n] else []))"
      by (auto simp: check_timestamp_def bindE_Inr extend_Nil flag_extend split: option.splits)
    then show ?thesis
      by (intro exI [of _ "if fromisoformat L (replace_Z t) = None then [timestamp_message n] else []"]) auto
  qed
qed

lemma validate_record_parts:
  assumes "validate_record L n r st = Inr st'"
  shows "\<exists>b1 b2 b3 b4.
     (\<forall>s. check_missing n r s = Inr (extend s b1)) \<and>
     (\<forall>s. check_score L n r s = Inr (extend s b2)) \<and>
     (\<forall>s. check_language n r s = Inr (extend s b3)) \<and>
     (\<forall>s. check_timestamp L n r s = Inr (extend s b4)) \<and>
     (\<forall>s. validate_record L n r s = Inr (extend s (b1 @ b2 @ b3 @ b4)))"
proof -
  from assms obtain s1 s2 s3 where
    c1: "check_missing n r st = Inr s1" and c2: "check_score L n r s1 = Inr s2" and
    c3: "check_language n r s2 = Inr s3" and c4: "check_timestamp L n r s3 = Inr st'"
    by (auto simp: validate_record_def bindE_eq_Inr)
  from check_missing_shape [OF c1] obtain b1 where
    b1: "\<forall>s. check_missing n r s = Inr (extend s b1)" by blast
  from check_score_shape [OF c2] obtain b2 where
    b2: "\<forall>s. check_score L n r s = Inr (extend s b2)" by blast
  from check_language_shape [OF c3] obtain b3 where
    b3: "\<forall>s. check_language n r s = Inr (extend s b3)" by blast
  from check_timestamp_shape [OF c4] obtain b4 where
    b4: "\<forall>s. check_timestamp L n r s = Inr (extend s b4)" by blast
  have "\<forall>s. validate_record L n r s = Inr (extend s (b1 @ b2 @ b3 @ b4))"
    by (simp add: validate_record_def b1 b2 b3 b4 bindE_Inr extend_extend)
  with b1 b2 b3 b4 show ?thesis by blast
qed

lemma validate_loop_shape:
  "validate_loop L idx data st = Inr st' \<Longrightarrow>
   \<exists>new. \<forall>s. validate_loop L idx data s = Inr (extend s new)"
proof (induction data arbitrary: idx st)
  case Nil
  then show ?case by (intro exI [of _ "[]"]) (simp add: extend_Nil)
next
  case (Cons r rest)
  from Cons.prems obtain s1 where
    r: "validate_record L (idx + 1) r st = Inr s1" and
    l: "validate_loop L (idx + 1) rest s1 = Inr st'"
    by (auto split: sum.splits)
  from validate_record_parts [OF r] obtain b where
    b: "\<forall>s. validate_record L (idx + 1) r s = Inr (extend s b)" by blast
  from Cons.IH [OF l] obtain c where
    c: "\<forall>s. validate_loop L (idx + 1) rest s = Inr (extend s c)" by blast
  have "validate_loop L idx (r # rest) s = Inr (extend s (b @ c))" for s
    using b [rule_format, of s] c [rule_format, of "extend s b"]
    by (simp add: extend_extend)
  then show ?case by blast
qed

lemma validate_data_flag:
  assumes "validate_data L data = Inr (is_valid, error_messages)"
  shows "is_valid = (error_messages = [])"
proof -
  from assms validate_loop_shape [of L 0 data "(True, [])" "(is_valid, error_messages)"]
  obtain new where "\<forall>s. validate_loop L 0 data s = Inr (extend s new)"
    by (auto simp: validate_data_def)
  from this [rule_format, of "(True, [])"] assms show ?thesis
    by (auto simp: validate_data_def extend_def)
qed

lemma validate_loop_append:
  "validate_loop L idx (pre @ post) st =
     (case validate_loop L idx pre st of
        Inl e \<Rightarrow> Inl e
      | Inr s \<Rightarrow> validate_loop L (idx + length pre) post s)"
  by (induction pre arbitrary: idx st) (auto split: sum.splits)

text \<open>
  The messages of a validation that returns: those of the rows before row \<open>i + 1\<close>,
  those of that row, those of the rows after it.
\<close>

lemma validate_data_row:
  assumes v: "validate_data L data = Inr (ok, errs)" and i: "i < length data"
  shows "\<exists>a b c. (\<forall>s. validate_record L (i + 1) (data ! i) s = Inr (extend s b)) \<and>
           errs = a @ b @ c"
proof -
  have split: "data = take i data @ data ! i # drop (Suc i) data"
    using i by (simp add: id_take_nth_drop)
  have len: "length (take i data) = i" using i by simp
  from v have "validate_loop L 0 (take i data @ data ! i # drop (Suc i) data) (True, []) =
      Inr (ok, errs)"
    using split by (simp add: validate_data_def)
  then obtain s1 s2 where
    p1: "validate_loop L 0 (take i data) (True, []) = Inr s1" and
    p2: "validate_record L (i + 1) (data ! i) s1 = Inr s2" and
    p3: "validate_loop L (i + 1) (drop (Suc i) data) s2 = Inr (ok, errs)"
    using i by (auto simp: validate_loop_append min_def split: sum.splits)
  from validate_loop_shape [OF p1] obtain a where
    a: "\<forall>s. validate_loop L 0 (take i data) s = Inr (extend s a)" by blast
  from validate_record_parts [OF p2] obtain b where
    b: "\<forall>s. validate_record L (i + 1) (data ! i) s = Inr (extend s b)" by blast
  from validate_loop_shape [OF p3] obtain c where
    c: "\<forall>s. validate_loop L (i + 1) (drop (Suc i) data) s = Inr (extend s c)" by blast
  have s1: "s1 = extend (True, []) a" using a [rule_format, of "(True, [])"] p1 by simp
  have s2: "s2 = extend s1 b" using b [rule_format, of s1] p2 by simp
  have "(ok, errs) = extend s2 c" using c [rule_format, of s2] p3 by simp
  then have "errs = a @ b @ c" using s1 s2 by (simp add: extend_def)
  with b show ?thesis by blast
qed

lemma mapE_Inr:
  "mapE f xs = Inr ys \<Longrightarrow> length ys = length xs \<and> (\<forall>i < length xs. f (xs ! i) = Inr (ys ! i))"
proof (induction xs arbitrary: ys)
  case Nil
  then show ?case by simp
next
  case (Cons x xs)
  from Cons.prems obtain y zs where
    y: "f x = Inr y" and zs: "mapE f xs = Inr zs" and ys: "ys = y # zs"
    by (auto split: sum.splits)
  from Cons.IH [OF zs] have
    ih: "length zs = length xs" "\<forall>i < length xs. f (xs ! i) = Inr (zs ! i)" by auto
  show ?case
  proof (intro conjI allI impI)
    show "length ys = length (x # xs)" using ys ih by simp
  next
    fix i assume "i < length (x # xs)"
    then show "f ((x # xs) ! i) = Inr (ys ! i)"
      using y ys ih by (cases i) auto
  qed
qed

lemma mapE_all_Inr:
  "(\<forall>x \<in> set xs. f x = Inr (g x)) \<Longrightarrow> mapE f xs = Inr (map g xs)"
  by (induction xs) auto

text \<open>The gate of \<open>process_data\<close>, on every input whose decoding and validation return.\<close>

lemma process_data_gate:
  assumes "decode L data_input = Inr data" and "validate_data L data = Inr (ok, errs)"
  shows "process_data L data_input =
     (if errs \<noteq> [] then generate_validation_report L data
      else bindE (process_feedback L data) (generate_detailed_report L data))"
  using assms validate_data_flag [OF assms(2)]
  by (auto simp: process_data_def bindE_Inr)

lemma validation_report_lists_errors:
  assumes "generate_validation_report L data = Inr report"
    and "validate_data L data = Inr (ok, errs)" and "errs \<noteq> []"
  shows "\<exists>s_id s_language s_text s_timestamp s_score.
     report = validation_header (length data) s_id s_language s_text s_timestamp s_score @
              join [CHR 0x0A] errs"
  using assms validate_data_flag [OF assms(2)]
  by (auto simp: generate_validation_report_def bindE_eq_Inr bindE_Inr) blast+

section \<open>Enrichment\<close>

text \<open>
  Claim C8. The batch that \<open>process_feedback\<close> returns has as many records as its
  input, and the record at each position is the processed record of the input record
  at that position. This holds for every batch on which \<open>process_feedback\<close> returns,
  the valid ones among them.
\<close>

theorem process_feedback_positionwise:
  "process_feedback L data = Inr processed_data \<Longrightarrow>
   length processed_data = length data \<and>
   (\<forall>i < length data. process_record L (data ! i) = Inr (processed_data ! i))"
  unfolding process_feedback_def by (rule mapE_Inr)


lemma two_records_valid: "validate_data (py_lib 0) two_records = Inr (True, [])"
  by code_simp

lemma two_records_processed: "process_feedback (py_lib 0) two_records = Inr two_processed"
  by code_simp

theorem process_feedback_positionwise_witness:
  "process_feedback (py_lib 0) two_records = Inr two_processed \<and>
   length two_processed = length two_records \<and>
   process_record (py_lib 0) (two_records ! 1) = Inr (two_processed ! 1)"
proof -
  note t = process_feedback_positionwise [OF two_records_processed]
  have len: "length two_processed = length two_records" using t by simp
  have "1 < length two_records" by (simp add: two_records_def)
  with t have "process_record (py_lib 0) (two_records ! 1) = Inr (two_processed ! 1)"
    by blast
  with len two_records_processed show ?thesis by simp
qed

section \<open>What the decoders deliver\<close>

lemma item_if_present_dict:
  "item_if_present k (VDict kvs) = Inr (map_of kvs k)"
  by (cases "map_of kvs k") (simp_all add: item_if_present_def bindE_Inr)

lemma map_of_dict_set: "map_of (dict_set kvs k v) k = Some v"
  by (induction kvs) auto

lemma csv_rows_Inr:
  "csv_rows L rows = Inr records \<Longrightarrow>
     length records = length rows \<and> (\<forall>j < length rows. csv_row L (rows ! j) = Inr (records ! j))"
proof (induction rows arbitrary: records)
  case Nil
  then show ?case by simp
next
  case (Cons row rest)
  from Cons.prems obtain r rs where
    r: "csv_row L row = Inr r" and rs: "csv_rows L rest = Inr rs" and records: "records = r # rs"
    by (auto split: sum.splits)
  from Cons.IH [OF rs] have
    ih: "length rs = length rest" "\<forall>j < length rest. csv_row L (rest ! j) = Inr (rs ! j)" by auto
  show ?case
  proof (intro conjI allI impI)
    show "length records = length (row # rest)" using records ih by simp
  next
    fix j assume "j < length (row # rest)"
    then show "csv_row L ((row # rest) ! j) = Inr (records ! j)"
      using r records ih by (cases j) auto
  qed
qed

lemma parse_csv_Inr:
  assumes "parse_csv L s = Inr records"
  shows "csv_rows L (fst (csv_DictReader L (split_lines (py_strip s)))) = Inr records"
  using assms by (auto simp: parse_csv_def Let_def split: prod.splits sum.splits option.splits)

text \<open>
  The score of a decoded record is absent, \<open>None\<close>, a float, or the empty string, and
  the score check of the validator returns on each of them.
\<close>

lemma map_of_cells:
  "map_of (map (\<lambda>(k, c). (k, csv_cell c)) row) k = map_option csv_cell (map_of row k)"
  by (induction row) auto

lemma csv_row_score:
  assumes "csv_row L row = Inr (VDict kvs)"
  shows "decoded_score_value (map_of kvs ''sentiment_score'')"
proof (cases "map_of row ''sentiment_score''")
  case None
  with assms have "kvs = map (\<lambda>(k, c). (k, csv_cell c)) row"
    by (simp add: csv_row_def Let_def)
  with None show ?thesis by (simp add: map_of_cells decoded_score_value_def)
next
  case (Some c)
  with assms obtain x where
    "kvs = dict_set (map (\<lambda>(k, c). (k, csv_cell c)) row) ''sentiment_score'' x"
    and "x = VNone \<or> is_float x"
    by (cases c) (auto simp: csv_row_def Let_def split: if_splits sum.splits)
  then show ?thesis by (auto simp: map_of_dict_set decoded_score_value_def)
qed

lemma json_record_score:
  assumes "json_record L r = Inr (VDict kvs)"
  shows "decoded_score_value (map_of kvs ''sentiment_score'')"
proof -
  from assms obtain v where v: "item_if_present ''sentiment_score'' r = Inr v"
    by (auto simp: json_record_def bindE_eq_Inr)
  show ?thesis
  proof (cases v)
    case None
    with assms v have r: "r = VDict kvs" by (simp add: json_record_def bindE_Inr)
    with v None have "map_of kvs ''sentiment_score'' = None"
      by (simp add: item_if_present_dict)
    then show ?thesis by (simp add: decoded_score_value_def)
  next
    case (Some x)
    show ?thesis
    proof (cases "x = VStr []")
      case True
      with assms v Some have r: "r = VDict kvs" by (simp add: json_record_def bindE_Inr)
      with v Some True have "map_of kvs ''sentiment_score'' = Some (VStr [])"
        by (simp add: item_if_present_dict)
      then show ?thesis by (simp add: decoded_score_value_def)
    next
      case False
      with assms v Some obtain y where
        s: "py_setitem r ''sentiment_score'' y = Inr (VDict kvs)" and y: "y = VNone \<or> is_float y"
        by (auto simp: json_record_def bindE_Inr bindE_eq_Inr split: if_splits)
      from s obtain kvs0 where "r = VDict kvs0" by (cases r) auto
      with s have "kvs = dict_set kvs0 ''sentiment_score'' y" by simp
      with y show ?thesis by (auto simp: map_of_dict_set decoded_score_value_def)
    qed
  qed
qed

lemma parse_json_items:
  assumes "parse_json L s = Inr data"
  shows "\<exists>items. mapE (json_record L) items = Inr data"
proof -
  from assms obtain d where d: "json_loads L s = Some d"
    by (cases "json_loads L s") (auto simp: parse_json_def)
  with assms obtain v where v: "item_if_present ''feedbacks'' d = Inr v" and
    c: "(case v of Some (VList records) \<Rightarrow> mapE (json_record L) records
         | _ \<Rightarrow> Inl json_structure_error) = Inr data"
    by (auto simp: parse_json_def bindE_eq_Inr)
  from c show ?thesis
    by (cases v) (auto split: pyval.splits)
qed

lemma decoded_score:
  assumes d: "decode L s = Inr data" and i: "i < length data" and r: "data ! i = VDict kvs"
  shows "decoded_score_value (map_of kvs ''sentiment_score'')"
proof (cases "startswith (py_strip s) ''{''")
  case True
  with d have "parse_json L s = Inr data" by (simp add: decode_def)
  from parse_json_items [OF this] obtain items where
    m: "mapE (json_record L) items = Inr data" by blast
  from mapE_Inr [OF m] i r have "json_record L (items ! i) = Inr (VDict kvs)" by auto
  then show ?thesis by (rule json_record_score)
next
  case False
  with d have "parse_csv L s = Inr data" by (simp add: decode_def)
  from csv_rows_Inr [OF parse_csv_Inr [OF this]] i r
  have "csv_row L (fst (csv_DictReader L (split_lines (py_strip s))) ! i) = Inr (VDict kvs)"
    by auto
  then show ?thesis by (rule csv_row_score)
qed

lemma check_score_returns:
  assumes "decoded_score_value (map_of kvs ''sentiment_score'')"
  shows "\<exists>st'. check_score L n (VDict kvs) st = Inr st'"
proof (cases "map_of kvs ''sentiment_score''")
  case None
  then show ?thesis by (simp add: check_score_def item_if_present_dict bindE_Inr)
next
  case (Some x)
  with assms have "x = VNone \<or> x = VStr [] \<or> is_float x"
    by (simp add: decoded_score_value_def)
  then consider "x = VNone" | "x = VStr []" | f where "x = VFloat f"
    by (cases x) auto
  then show ?thesis
  proof cases
    case 1
    with Some show ?thesis by (simp add: check_score_def item_if_present_dict bindE_Inr)
  next
    case 2
    with Some show ?thesis
      by (cases "float_of_str L []")
         (simp_all add: check_score_def item_if_present_dict bindE_Inr)
  next
    case 3
    with Some show ?thesis by (simp add: check_score_def item_if_present_dict bindE_Inr)
  qed
qed

section \<open>Empty feedback text\<close>

lemma missing_fields_dict:
  "missing_fields ks (VDict kvs) =
     Inr (filter (\<lambda>k. case map_of kvs k of None \<Rightarrow> True | Some x \<Rightarrow> \<not> py_truthy x) ks)"
  by (induction ks) (simp_all add: item_if_present_dict)

lemma check_missing_dict:
  "check_missing n (VDict kvs) s =
     Inr (extend s
       (let missing = filter (\<lambda>k. case map_of kvs k of None \<Rightarrow> True | Some x \<Rightarrow> \<not> py_truthy x)
                        required_fields
        in if missing \<noteq> [] then [missing_message missing n] else []))"
  by (simp add: check_missing_def missing_fields_dict bindE_Inr flag_extend extend_Nil Let_def)

lemma check_score_returns_status:
  "check_score L n (VDict kvs) st = Inr st' \<Longrightarrow>
   \<exists>v. (v = ''valid'' \<or> v = ''invalid'') \<and> score_status L [VDict kvs] = Inr v"
  by (cases "map_of kvs ''sentiment_score''")
     (auto simp: check_score_def item_if_present_dict bindE_Inr split: sum.splits exn.splits if_splits)

text \<open>
  Claim C6, as the code has it. Take a record whose \<open>feedback_id\<close>, \<open>language\<close> and
  \<open>timestamp\<close> are present and valid and whose \<open>feedback_text\<close> is the empty string,
  whatever its score is. In every batch that holds it at row \<open>i + 1\<close> and whose
  validation returns, the batch is invalid and the errors hold the message that
  reports \<open>feedback_text\<close> as a missing required field of that row. On such a batch
  \<open>process_data\<close> does what \<open>generate_validation_report\<close> does and never enriches:
  when the report is returned, it is the header followed by the errors. When a decoder
  returned the batch of that record alone, validation returns, the report is returned,
  and its text is given. With an absent
  or \<open>None\<close> score the message is the only one of the row.
\<close>

theorem empty_text_is_reported_missing:
  assumes fid: "map_of kvs ''feedback_id'' = Some fid" "py_truthy fid"
    and lang: "map_of kvs ''language'' = Some (VStr lang)" "match_iso639 lang"
    and empty: "map_of kvs ''feedback_text'' = Some (VStr [])"
    and ts: "map_of kvs ''timestamp'' = Some (VStr ts)" "ts \<noteq> []"
            "fromisoformat L (replace_Z ts) = Some dt"
  shows "(\<forall>data i ok errs. i < length data \<and> data ! i = VDict kvs \<and>
             validate_data L data = Inr (ok, errs) \<longrightarrow>
             \<not> ok \<and> (\<exists>before after.
                errs = before @ missing_message [''feedback_text''] (i + 1) # after)) \<and>
         (\<forall>data_input data i ok errs. decode L data_input = Inr data \<and> i < length data \<and>
             data ! i = VDict kvs \<and> validate_data L data = Inr (ok, errs) \<longrightarrow>
             process_data L data_input = generate_validation_report L data \<and>
             (\<forall>report. generate_validation_report L data = Inr report \<longrightarrow>
                process_data L data_input = Inr report \<and>
                (\<exists>s_id s_language s_text s_timestamp s_score.
                   report = validation_header (length data) s_id s_language s_text
                              s_timestamp s_score @ join [CHR 0x0A] errs))) \<and>
         (\<forall>data_input. decode L data_input = Inr [VDict kvs] \<longrightarrow>
             (\<exists>errs s_score after. validate_data L [VDict kvs] = Inr (False, errs) \<and>
                errs = missing_message [''feedback_text''] 1 # after \<and>
                (s_score = ''valid'' \<or> s_score = ''invalid'') \<and>
                process_data L data_input =
                  Inr (validation_header 1 ''present'' ''valid'' ''valid'' ''valid'' s_score @
                       join [CHR 0x0A] errs))) \<and>
         (\<forall>n st. map_of kvs ''sentiment_score'' = None \<or>
                 map_of kvs ''sentiment_score'' = Some VNone \<longrightarrow>
             validate_record L n (VDict kvs) st =
               Inr (flag st (missing_message [''feedback_text''] n)))"
proof -
  have lang_ne: "lang \<noteq> []" using lang(2) by (auto simp: match_iso639_def)
  have c1: "check_missing m (VDict kvs) s = Inr (extend s [missing_message [''feedback_text''] m])"
    for m s
    using fid lang(1) lang_ne empty ts(1,2)
    by (simp add: check_missing_dict required_fields_def Let_def)
  have c3: "check_language m (VDict kvs) s = Inr s" for m s
    using lang lang_ne by (simp add: check_language_def item_if_present_dict bindE_Inr)
  have c4: "check_timestamp L m (VDict kvs) s = Inr s" for m s
    using ts by (simp add: check_timestamp_def item_if_present_dict bindE_Inr)
  have row: "\<exists>b2. b = missing_message [''feedback_text''] m # b2 \<and>
               (\<forall>s. check_score L m (VDict kvs) s = Inr (extend s b2))"
    if b: "\<forall>s. validate_record L m (VDict kvs) s = Inr (extend s b)" for m b
  proof -
    from validate_record_parts [OF b [rule_format, of "(True, [])"]] obtain b1 b2 b3 b4 where
      p1: "\<forall>s. check_missing m (VDict kvs) s = Inr (extend s b1)" and
      p2: "\<forall>s. check_score L m (VDict kvs) s = Inr (extend s b2)" and
      p3: "\<forall>s. check_language m (VDict kvs) s = Inr (extend s b3)" and
      p4: "\<forall>s. check_timestamp L m (VDict kvs) s = Inr (extend s b4)" and
      p: "\<forall>s. validate_record L m (VDict kvs) s = Inr (extend s (b1 @ b2 @ b3 @ b4))"
      by blast
    from p1 [rule_format, of "(True, [])"] c1 [of m "(True, [])"]
    have b1: "b1 = [missing_message [''feedback_text''] m]" by (simp add: extend_def)
    from p3 [rule_format, of "(True, [])"] c3 [of m "(True, [])"]
    have b3: "b3 = []" by (simp add: extend_def)
    from p4 [rule_format, of "(True, [])"] c4 [of m "(True, [])"]
    have b4: "b4 = []" by (simp add: extend_def)
    from b [rule_format, of "(True, [])"] p [rule_format, of "(True, [])"]
    have "b = b1 @ b2 @ b3 @ b4" by (simp add: extend_def)
    with b1 b3 b4 p2 show ?thesis by simp
  qed
  have batch: "\<not> ok \<and> (\<exists>before after.
        errs = before @ missing_message [''feedback_text''] (i + 1) # after)"
    if i: "i < length data" and r: "data ! i = VDict kvs"
      and v: "validate_data L data = Inr (ok, errs)" for data i ok errs
  proof -
    from validate_data_row [OF v i] obtain a b c where
      b: "\<forall>s. validate_record L (i + 1) (data ! i) s = Inr (extend s b)" and
      e: "errs = a @ b @ c" by blast
    from row [of "i + 1" b] b r obtain b2 where
      "b = missing_message [''feedback_text''] (i + 1) # b2" by auto
    with e have m: "errs = a @ missing_message [''feedback_text''] (i + 1) # (b2 @ c)" by simp
    then have "errs \<noteq> []" by auto
    with validate_data_flag [OF v] m show ?thesis by blast
  qed
  have gate: "process_data L data_input = generate_validation_report L data"
    if d: "decode L data_input = Inr data" and i: "i < length data" and r: "data ! i = VDict kvs"
      and v: "validate_data L data = Inr (ok, errs)" for data_input data i ok errs
  proof -
    from batch [OF i r v] have "errs \<noteq> []" by auto
    with process_data_gate [OF d v] show ?thesis by simp
  qed
  have rep: "\<exists>s_id s_language s_text s_timestamp s_score.
        report = validation_header (length data) s_id s_language s_text s_timestamp s_score @
                 join [CHR 0x0A] errs"
    if i: "i < length data" and r: "data ! i = VDict kvs"
      and v: "validate_data L data = Inr (ok, errs)"
      and g: "generate_validation_report L data = Inr report" for data i ok errs report
  proof -
    from batch [OF i r v] have "errs \<noteq> []" by auto
    from validation_report_lists_errors [OF g v this] show ?thesis .
  qed
  have single: "\<exists>errs s_score after. validate_data L [VDict kvs] = Inr (False, errs) \<and>
        errs = missing_message [''feedback_text''] 1 # after \<and>
        (s_score = ''valid'' \<or> s_score = ''invalid'') \<and>
        process_data L data_input =
          Inr (validation_header 1 ''present'' ''valid'' ''valid'' ''valid'' s_score @
               join [CHR 0x0A] errs)"
    if d: "decode L data_input = Inr [VDict kvs]" for data_input
  proof -
    from decoded_score [OF d, of 0 kvs] have "decoded_score_value (map_of kvs ''sentiment_score'')"
      by simp
    from check_score_returns [OF this] obtain st2 where
      "check_score L 1 (VDict kvs) (extend (True, []) [missing_message [''feedback_text''] 1]) =
         Inr st2"
      by blast
    then have "validate_record L 1 (VDict kvs) (True, []) = Inr st2"
      by (simp add: validate_record_def c1 c3 c4 bindE_Inr)
    then obtain ok errs where v: "validate_data L [VDict kvs] = Inr (ok, errs)"
      by (cases st2) (simp add: validate_data_def)
    from validate_data_row [OF v, of 0] obtain a b c where
      b: "\<forall>s. validate_record L 1 (VDict kvs) s = Inr (extend s b)" by auto
    from row [OF b] obtain b2 where
      b2: "b = missing_message [''feedback_text''] 1 # b2" and
      cs: "\<forall>s. check_score L 1 (VDict kvs) s = Inr (extend s b2)" by blast
    from v b [rule_format, of "(True, [])"] b2
    have e: "errs = missing_message [''feedback_text''] 1 # b2" and ok: "\<not> ok"
      by (simp_all add: validate_data_def extend_def)
    from check_score_returns_status [OF cs [rule_format, of "(True, [])"]] obtain sv where
      sv: "score_status L [VDict kvs] = Inr sv" and
      svs: "sv = ''valid'' \<or> sv = ''invalid''" by blast
    have g: "generate_validation_report L [VDict kvs] =
        Inr (validation_header 1 ''present'' ''valid'' ''valid'' ''valid'' sv @
             join [CHR 0x0A] errs)"
      using v ok sv fid lang empty ts(1,2)
      by (simp add: generate_validation_report_def bindE_Inr present_and_truthy_def
            item_if_present_dict)
    from gate [OF d _ _ v, of 0] g have "process_data L data_input =
        Inr (validation_header 1 ''present'' ''valid'' ''valid'' ''valid'' sv @
             join [CHR 0x0A] errs)"
      by simp
    moreover from v ok have "validate_data L [VDict kvs] = Inr (False, errs)" by simp
    ultimately show ?thesis using e svs
      by (intro exI [of _ errs] exI [of _ sv] exI [of _ b2]) simp
  qed
  have rec: "validate_record L n (VDict kvs) st =
      Inr (flag st (missing_message [''feedback_text''] n))"
    if "map_of kvs ''sentiment_score'' = None \<or> map_of kvs ''sentiment_score'' = Some VNone"
    for n st
  proof -
    have "check_score L n (VDict kvs) s = Inr s" for s
      using that by (auto simp: check_score_def item_if_present_dict bindE_Inr)
    then show ?thesis
      by (simp add: validate_record_def c1 c3 c4 bindE_Inr flag_extend)
  qed
  show ?thesis
  proof (intro conjI allI impI)
    fix data i ok errs
    assume "i < length data \<and> data ! i = VDict kvs \<and> validate_data L data = Inr (ok, errs)"
    then have "\<not> ok \<and> (\<exists>before after.
        errs = before @ missing_message [''feedback_text''] (i + 1) # after)"
      using batch by blast
    then show "\<not> ok" and "\<exists>before after.
        errs = before @ missing_message [''feedback_text''] (i + 1) # after" by blast+
  next
    fix data_input data i ok errs
    assume a: "decode L data_input = Inr data \<and> i < length data \<and>
        data ! i = VDict kvs \<and> validate_data L data = Inr (ok, errs)"
    then show g: "process_data L data_input = generate_validation_report L data"
      using gate by blast
    fix report
    assume r: "generate_validation_report L data = Inr report"
    with g show "process_data L data_input = Inr report" by simp
    from a r show "\<exists>s_id s_language s_text s_timestamp s_score.
        report = validation_header (length data) s_id s_language s_text s_timestamp s_score @
                 join [CHR 0x0A] errs"
      using rep by blast
  next
    fix data_input
    assume "decode L data_input = Inr [VDict kvs]"
    then show "\<exists>errs s_score after. validate_data L [VDict kvs] = Inr (False, errs) \<and>
        errs = missing_message [''feedback_text''] 1 # after \<and>
        (s_score = ''valid'' \<or> s_score = ''invalid'') \<and>
        process_data L data_input =
          Inr (validation_header 1 ''present'' ''valid'' ''valid'' ''valid'' s_score @
               join [CHR 0x0A] errs)"
      by (rule single)
  next
    fix n st
    assume "map_of kvs ''sentiment_score'' = None \<or> map_of kvs ''sentiment_score'' = Some VNone"
    then show "validate_record L n (VDict kvs) st =
        Inr (flag st (missing_message [''feedback_text''] n))"
      by (rule rec)
  qed
qed

text \<open>
  The row \<open>FB1,en,,null,2023-03-21T08:00:00Z\<close> decodes to a record with the empty
  text; the theorem applies to it.
\<close>

lemma csv_empty_text_decodes:
  "decode (py_lib 0) csv_empty_text = Inr [VDict empty_text_record]"
  by code_simp

lemma empty_text_record_validation:
  "validate_data (py_lib 0) [VDict empty_text_record] =
     Inr (False, [''ERROR: Missing required field(s): feedback_text in row 1.''])"
  by code_simp

lemma csv_empty_text_report:
  "process_data (py_lib 0) csv_empty_text =
     Inr (validation_header 1 ''present'' ''valid'' ''valid'' ''valid'' ''valid'' @
          ''ERROR: Missing required field(s): feedback_text in row 1.'')"
  by code_simp

theorem empty_text_is_reported_missing_witness:
  "validate_data (py_lib 0) [VDict empty_text_record] =
     Inr (False, [''ERROR: Missing required field(s): feedback_text in row 1.'']) \<and>
   (\<exists>before after. [''ERROR: Missing required field(s): feedback_text in row 1.''] =
      before @ missing_message [''feedback_text''] (0 + 1) # after) \<and>
   (\<exists>s_score. (s_score = ''valid'' \<or> s_score = ''invalid'') \<and>
      process_data (py_lib 0) csv_empty_text =
        Inr (validation_header 1 ''present'' ''valid'' ''valid'' ''valid'' s_score @
             join [CHR 0x0A] [''ERROR: Missing required field(s): feedback_text in row 1.''])) \<and>
   validate_record (py_lib 0) 1 (VDict empty_text_record) (True, []) =
     Inr (flag (True, []) (missing_message [''feedback_text''] 1))"
proof -
  have ts: "fromisoformat (py_lib 0) (replace_Z ''2023-03-21T08:00:00Z'') =
      Some \<lparr>dt_year = 2023, dt_month = 3, dt_day = 21, dt_hour = 8, dt_minute = 0,
            dt_second = 0, dt_microsecond = 0, dt_utcoffset = Some 0\<rparr>"
    by code_simp
  have m: "match_iso639 ''en''" by code_simp
  have kvs: "map_of empty_text_record ''feedback_id'' = Some (VStr ''FB1'')"
    "py_truthy (VStr ''FB1'')"
    "map_of empty_text_record ''language'' = Some (VStr ''en'')"
    "map_of empty_text_record ''feedback_text'' = Some (VStr [])"
    "map_of empty_text_record ''timestamp'' = Some (VStr ''2023-03-21T08:00:00Z'')"
    "''2023-03-21T08:00:00Z'' \<noteq> []"
    "map_of empty_text_record ''sentiment_score'' = Some VNone"
    by (simp_all add: empty_text_record_def)
  note t = empty_text_is_reported_missing [OF kvs(1) kvs(2) kvs(3) m kvs(4) kvs(5) kvs(6) ts]
  note v = empty_text_record_validation
  have i: "0 < length [VDict empty_text_record]"
    "[VDict empty_text_record] ! 0 = VDict empty_text_record"
    by simp_all
  from t i v have a: "\<exists>before after.
      [''ERROR: Missing required field(s): feedback_text in row 1.''] =
      before @ missing_message [''feedback_text''] (0 + 1) # after"
    by blast
  from t csv_empty_text_decodes have "\<exists>errs s_score after.
      validate_data (py_lib 0) [VDict empty_text_record] = Inr (False, errs) \<and>
      errs = missing_message [''feedback_text''] 1 # after \<and>
      (s_score = ''valid'' \<or> s_score = ''invalid'') \<and>
      process_data (py_lib 0) csv_empty_text =
        Inr (validation_header 1 ''present'' ''valid'' ''valid'' ''valid'' s_score @
             join [CHR 0x0A] errs)"
    by blast
  with v have b: "\<exists>s_score. (s_score = ''valid'' \<or> s_score = ''invalid'') \<and>
      process_data (py_lib 0) csv_empty_text =
        Inr (validation_header 1 ''present'' ''valid'' ''valid'' ''valid'' s_score @
             join [CHR 0x0A] [''ERROR: Missing required field(s): feedback_text in row 1.''])"
    by auto
  from t kvs(7) have c: "validate_record (py_lib 0) 1 (VDict empty_text_record) (True, []) =
      Inr (flag (True, []) (missing_message [''feedback_text''] 1))"
    by blast
  from v a b c show ?thesis by blast
qed

text \<open>
  Claim C6 as stated fails on that row: validation does not succeed, and the one
  message reports the empty text as a missing required field.
\<close>

theorem empty_text_counterexample:
  "decode (py_lib 0) csv_empty_text = Inr [VDict empty_text_record] \<and>
   validate_data (py_lib 0) [VDict empty_text_record] =
     Inr (False, [''ERROR: Missing required field(s): feedback_text in row 1.''])"
  using csv_empty_text_decodes empty_text_record_validation by simp

section \<open>A score that is not a number\<close>

lemma messages_differ: "score_type_message n \<noteq> score_range_message n"
  by (simp add: score_type_message_def score_range_message_def)

lemma csv_row_Inl:
  "csv_row L row = Inl m \<Longrightarrow>
   \<exists>s. map_of row ''sentiment_score'' = Some (Some s) \<and> s \<noteq> [] \<and> py_lower s \<noteq> ''null'' \<and>
       float_of_str L s = Inl m"
  by (auto simp: csv_row_def Let_def split: option.splits if_splits sum.splits)

lemma csv_rows_first:
  "j < length rows \<Longrightarrow> csv_row L (rows ! j) = Inl m \<Longrightarrow>
   \<forall>i < j. \<exists>r. csv_row L (rows ! i) = Inr r \<Longrightarrow> csv_rows L rows = Inl m"
proof (induction rows arbitrary: j)
  case Nil
  then show ?case by simp
next
  case (Cons row rest)
  show ?case
  proof (cases j)
    case 0
    with Cons.prems show ?thesis by simp
  next
    case (Suc k)
    from Cons.prems(3) Suc obtain r where r: "csv_row L row = Inr r" by fastforce
    have "\<forall>i < k. \<exists>r. csv_row L (rest ! i) = Inr r"
    proof (intro allI impI)
      fix i assume "i < k"
      then have "Suc i < j" using Suc by simp
      with Cons.prems(3) have "\<exists>r. csv_row L ((row # rest) ! Suc i) = Inr r" by blast
      then show "\<exists>r. csv_row L (rest ! i) = Inr r" by simp
    qed
    with Cons.prems Suc have "csv_rows L rest = Inl m" by (intro Cons.IH [of k]) auto
    with r show ?thesis by simp
  qed
qed

lemma first_failing_row:
  assumes "csv_row L (rows ! j) = Inl msg"
  shows "\<exists>k m. k \<le> j \<and> csv_row L (rows ! k) = Inl m \<and>
           (\<forall>i < k. \<exists>r. csv_row L (rows ! i) = Inr r)"
proof -
  define P where "P k = (\<exists>m. csv_row L (rows ! k) = Inl m)" for k
  define k where "k = (LEAST k. P k)"
  have Pj: "P j" using assms by (auto simp: P_def)
  then have "P k" unfolding k_def by (rule LeastI)
  then obtain m where m: "csv_row L (rows ! k) = Inl m" by (auto simp: P_def)
  have le: "k \<le> j" unfolding k_def using Pj by (rule Least_le)
  have "\<exists>r. csv_row L (rows ! i) = Inr r" if "i < k" for i
  proof -
    from that have "\<not> P i" unfolding k_def by (rule not_less_Least)
    then show ?thesis by (cases "csv_row L (rows ! i)") (auto simp: P_def)
  qed
  with m le show ?thesis by blast
qed

lemma process_data_csv_error:
  assumes "\<not> startswith (py_strip data_input) ''{''"
    and "csv_DictReader L (split_lines (py_strip data_input)) = (rows, err)"
    and "csv_rows L rows = Inl m"
  shows "process_data L data_input = Inr (''ERROR: Invalid CSV format. '' @ m)"
  using assms by (simp add: process_data_def decode_def parse_csv_def csv_error_def)

text \<open>
  Claim C4, as the code has it. Let \<open>s\<close> be a string that \<open>float\<close> refuses. The
  validator flags a record whose score is \<open>s\<close>: in a batch whose validation returns,
  the batch is invalid and the type-error message of that row is among the errors,
  and this message differs from the out-of-range message. A CSV text with the cell
  \<open>s\<close> in the score column, \<open>s\<close> being neither empty nor the token null, does not
  reach the validator: \<open>parse_csv\<close> turns the exception of \<open>float\<close> into its own
  \<open>ValueError\<close>, and \<open>process_data\<close> returns \<open>ERROR: Invalid CSV format.\<close> followed
  by the message that \<open>float\<close> gave for the first row whose cell it refused; when no
  row before that of \<open>s\<close> fails, this is the message for \<open>s\<close>.
\<close>

theorem non_numeric_score:
  assumes bad: "float_of_str L s = Inl msg"
  shows "(\<forall>data i kvs ok errs. i < length data \<and> data ! i = VDict kvs \<and>
            map_of kvs ''sentiment_score'' = Some (VStr s) \<and>
            validate_data L data = Inr (ok, errs) \<longrightarrow>
            \<not> ok \<and> score_type_message (i + 1) \<in> set errs \<and>
            score_type_message (i + 1) \<noteq> score_range_message (i + 1)) \<and>
         (\<forall>data_input rows err j. \<not> startswith (py_strip data_input) ''{'' \<and>
            csv_DictReader L (split_lines (py_strip data_input)) = (rows, err) \<and>
            j < length rows \<and> map_of (rows ! j) ''sentiment_score'' = Some (Some s) \<and>
            s \<noteq> [] \<and> py_lower s \<noteq> ''null'' \<longrightarrow>
            (\<exists>k s' m. k \<le> j \<and> (\<forall>i < k. \<exists>r. csv_row L (rows ! i) = Inr r) \<and>
               map_of (rows ! k) ''sentiment_score'' = Some (Some s') \<and>
               s' \<noteq> [] \<and> py_lower s' \<noteq> ''null'' \<and> float_of_str L s' = Inl m \<and>
               process_data L data_input = Inr (''ERROR: Invalid CSV format. '' @ m)) \<and>
            ((\<forall>i < j. \<exists>r. csv_row L (rows ! i) = Inr r) \<longrightarrow>
               process_data L data_input = Inr (''ERROR: Invalid CSV format. '' @ msg)))"
proof (intro conjI allI impI)
  fix data i kvs ok errs
  assume a: "i < length data \<and> data ! i = VDict kvs \<and>
      map_of kvs ''sentiment_score'' = Some (VStr s) \<and> validate_data L data = Inr (ok, errs)"
  then have i: "i < length data" and r: "data ! i = VDict kvs"
    and sc: "map_of kvs ''sentiment_score'' = Some (VStr s)"
    and v: "validate_data L data = Inr (ok, errs)" by auto
  from validate_data_row [OF v i] obtain a b c where
    b: "\<forall>s. validate_record L (i + 1) (data ! i) s = Inr (extend s b)" and
    e: "errs = a @ b @ c" by blast
  from validate_record_parts [OF b [rule_format, of "(True, [])"]] obtain b1 b2 b3 b4 where
    p2: "\<forall>s. check_score L (i + 1) (data ! i) s = Inr (extend s b2)" and
    p: "\<forall>s. validate_record L (i + 1) (data ! i) s = Inr (extend s (b1 @ b2 @ b3 @ b4))"
    by blast
  have "check_score L (i + 1) (VDict kvs) (True, []) =
      Inr (extend (True, []) [score_type_message (i + 1)])"
    using sc bad by (simp add: check_score_def item_if_present_dict bindE_Inr flag_extend)
  with p2 [rule_format, of "(True, [])"] r have b2: "b2 = [score_type_message (i + 1)]"
    by (simp add: extend_def)
  from b [rule_format, of "(True, [])"] p [rule_format, of "(True, [])"]
  have "b = b1 @ b2 @ b3 @ b4" by (simp add: extend_def)
  with e b2 have m: "score_type_message (i + 1) \<in> set errs" by simp
  then have "errs \<noteq> []" by auto
  with validate_data_flag [OF v] have "\<not> ok" by simp
  with m show "\<not> ok" and "score_type_message (i + 1) \<in> set errs" by simp_all
  show "score_type_message (i + 1) \<noteq> score_range_message (i + 1)" by (rule messages_differ)
next
  fix data_input rows err j
  assume a: "\<not> startswith (py_strip data_input) ''{'' \<and>
      csv_DictReader L (split_lines (py_strip data_input)) = (rows, err) \<and>
      j < length rows \<and> map_of (rows ! j) ''sentiment_score'' = Some (Some s) \<and>
      s \<noteq> [] \<and> py_lower s \<noteq> ''null''"
  then have nb: "\<not> startswith (py_strip data_input) ''{''"
    and rd: "csv_DictReader L (split_lines (py_strip data_input)) = (rows, err)"
    and j: "j < length rows" by auto
  from a bad have fail: "csv_row L (rows ! j) = Inl msg"
    by (simp add: csv_row_def)
  from first_failing_row [OF fail] obtain k m where
    k: "k \<le> j" and km: "csv_row L (rows ! k) = Inl m" and
    before: "\<forall>i < k. \<exists>r. csv_row L (rows ! i) = Inr r" by blast
  from csv_row_Inl [OF km] obtain s' where
    s': "map_of (rows ! k) ''sentiment_score'' = Some (Some s')" "s' \<noteq> []"
        "py_lower s' \<noteq> ''null''" "float_of_str L s' = Inl m" by blast
  from k j have "k < length rows" by simp
  from csv_rows_first [OF this km before] have "csv_rows L rows = Inl m" .
  from process_data_csv_error [OF nb rd this]
  have "process_data L data_input = Inr (''ERROR: Invalid CSV format. '' @ m)" .
  with k before s'
  show "\<exists>k s' m. k \<le> j \<and> (\<forall>i < k. \<exists>r. csv_row L (rows ! i) = Inr r) \<and>
               map_of (rows ! k) ''sentiment_score'' = Some (Some s') \<and>
               s' \<noteq> [] \<and> py_lower s' \<noteq> ''null'' \<and> float_of_str L s' = Inl m \<and>
               process_data L data_input = Inr (''ERROR: Invalid CSV format. '' @ m)"
    by blast
  assume first: "\<forall>i < j. \<exists>r. csv_row L (rows ! i) = Inr r"
  from csv_rows_first [OF j fail first] have "csv_rows L rows = Inl msg" .
  from process_data_csv_error [OF nb rd this]
  show "process_data L data_input = Inr (''ERROR: Invalid CSV format. '' @ msg)" .
qed

lemma float_abc:
  "float_of_str (py_lib 0) ''abc'' =
     Inl (''could not convert string to float: '' @ [CHR 0x27] @ ''abc'' @ [CHR 0x27])"
  by code_simp

lemma score_abc_record_validation:
  "validate_data (py_lib 0) [VDict score_abc_record] = Inr (False, [score_type_message 1])"
  by code_simp

lemma csv_score_abc_rows:
  "csv_DictReader (py_lib 0) (split_lines (py_strip csv_score_abc)) =
     ([[(''feedback_id'', Some ''FB1''), (''language'', Some ''en''),
        (''feedback_text'', Some ''good''), (''sentiment_score'', Some ''abc''),
        (''timestamp'', Some ''2023-03-21T08:00:00Z'')]], None)"
  by code_simp

lemma csv_score_abc_no_brace: "\<not> startswith (py_strip csv_score_abc) ''{''"
  by code_simp

lemma abc_not_null: "py_lower ''abc'' \<noteq> ''null''"
  by code_simp

text \<open>The string \<open>abc\<close>, in a record given to the validator and in a cell of a CSV text.\<close>

theorem non_numeric_score_witness:
  "validate_data (py_lib 0) [VDict score_abc_record] = Inr (False, [score_type_message 1]) \<and>
   score_type_message 1 \<in> set [score_type_message 1] \<and>
   process_data (py_lib 0) csv_score_abc =
     Inr (''ERROR: Invalid CSV format. '' @
          ''could not convert string to float: '' @ [CHR 0x27] @ ''abc'' @ [CHR 0x27])"
proof -
  note t = non_numeric_score [OF float_abc]
  from t have
    "0 < length [VDict score_abc_record] \<and>
     [VDict score_abc_record] ! 0 = VDict score_abc_record \<and>
     map_of score_abc_record ''sentiment_score'' = Some (VStr ''abc'') \<and>
     validate_data (py_lib 0) [VDict score_abc_record] = Inr (False, [score_type_message 1]) \<longrightarrow>
     \<not> False \<and> score_type_message (0 + 1) \<in> set [score_type_message 1] \<and>
     score_type_message (0 + 1) \<noteq> score_range_message (0 + 1)"
    by blast
  then have a: "score_type_message 1 \<in> set [score_type_message 1]"
    using score_abc_record_validation by (simp add: score_abc_record_def)
  define rows where "rows = [[(''feedback_id'', Some ''FB1''), (''language'', Some ''en''),
          (''feedback_text'', Some ''good''), (''sentiment_score'', Some ''abc''),
          (''timestamp'', Some ''2023-03-21T08:00:00Z'')]]"
  from t have
    "\<not> startswith (py_strip csv_score_abc) ''{'' \<and>
     csv_DictReader (py_lib 0) (split_lines (py_strip csv_score_abc)) = (rows, None) \<and>
     0 < length rows \<and>
     map_of (rows ! 0) ''sentiment_score'' = Some (Some ''abc'') \<and>
     ''abc'' \<noteq> [] \<and> py_lower ''abc'' \<noteq> ''null'' \<longrightarrow>
     ((\<forall>i < 0. \<exists>r. csv_row (py_lib 0) (rows ! i) = Inr r) \<longrightarrow>
      process_data (py_lib 0) csv_score_abc =
        Inr (''ERROR: Invalid CSV format. '' @
             ''could not convert string to float: '' @ [CHR 0x27] @ ''abc'' @ [CHR 0x27]))"
    by blast
  then have b: "process_data (py_lib 0) csv_score_abc =
      Inr (''ERROR: Invalid CSV format. '' @
           ''could not convert string to float: '' @ [CHR 0x27] @ ''abc'' @ [CHR 0x27])"
    using csv_score_abc_no_brace csv_score_abc_rows abc_not_null by (simp add: rows_def)
  from a b score_abc_record_validation show ?thesis by blast
qed

text \<open>
  Claim C4 as stated fails on both formats: with the score \<open>abc\<close> the decoders end
  the run, and \<open>process_data\<close> returns the message of the exception, not a
  validation report.
\<close>

theorem non_numeric_score_counterexample:
  "process_data (py_lib 0) csv_score_abc =
     Inr (''ERROR: Invalid CSV format. could not convert string to float: '' @
          [CHR 0x27] @ ''abc'' @ [CHR 0x27]) \<and>
   process_data (py_lib 0) json_score_abc =
     Inr (''could not convert string to float: '' @ [CHR 0x27] @ ''abc'' @ [CHR 0x27])"
  by code_simp

section \<open>A score that stands for no score\<close>

lemma py_getitem_dict:
  "py_getitem (VDict kvs) k = (case map_of kvs k of None \<Rightarrow> Inl KeyError | Some v \<Rightarrow> Inr v)"
  by simp

lemma csv_row_null:
  assumes "map_of row ''sentiment_score'' = Some c"
    and "c = None \<or> c = Some [] \<or> (\<exists>t. c = Some t \<and> py_lower t = ''null'')"
  shows "csv_row L row =
      Inr (VDict (dict_set (map (\<lambda>(k, c). (k, csv_cell c)) row) ''sentiment_score'' VNone))"
  using assms by (auto simp: csv_row_def Let_def)

lemma json_record_null_score:
  assumes "map_of kvs ''sentiment_score'' = Some x" and "x = VNone \<or> x = VStr ''null''"
  shows "json_record L (VDict kvs) = Inr (VDict (dict_set kvs ''sentiment_score'' VNone))"
  using assms by (auto simp: json_record_def item_if_present_dict bindE_Inr)

lemma parse_json_Inr:
  assumes "json_loads L s = Some (VDict doc)" and "map_of doc ''feedbacks'' = Some (VList items)"
  shows "parse_json L s = mapE (json_record L) items"
  using assms by (simp add: parse_json_def item_if_present_dict bindE_Inr)

text \<open>
  What the two decoders do normalise. In the batch that \<open>parse_csv\<close> returns, a record
  has the score \<open>None\<close> when the score cell of its row is missing, is empty, or is the
  token null in any letter case; in the batch that \<open>parse_json\<close> returns, a record has
  the score \<open>None\<close> when its score in the text is the JSON \<open>null\<close> or the string
  \<open>null\<close> in lower case. A record whose score is \<open>None\<close> passes the score check of the
  validator, and its processed record carries the score computed from its processed
  text.
\<close>

lemma scores_that_are_normalised:
  "(\<forall>s records j c.
        parse_csv L s = Inr records \<and> j < length records \<and>
        map_of (fst (csv_DictReader L (split_lines (py_strip s))) ! j) ''sentiment_score'' = Some c \<and>
        (c = None \<or> c = Some [] \<or> (\<exists>t. c = Some t \<and> py_lower t = ''null'')) \<longrightarrow>
        (\<exists>kvs. records ! j = VDict kvs \<and> map_of kvs ''sentiment_score'' = Some VNone)) \<and>
   (\<forall>s doc items records j kvs x.
        json_loads L s = Some (VDict doc) \<and> map_of doc ''feedbacks'' = Some (VList items) \<and>
        parse_json L s = Inr records \<and> j < length items \<and> items ! j = VDict kvs \<and>
        map_of kvs ''sentiment_score'' = Some x \<and> (x = VNone \<or> x = VStr ''null'') \<longrightarrow>
        (\<exists>kvs'. records ! j = VDict kvs' \<and> map_of kvs' ''sentiment_score'' = Some VNone)) \<and>
   (\<forall>kvs n st. map_of kvs ''sentiment_score'' = Some VNone \<longrightarrow>
        check_score L n (VDict kvs) st = Inr st) \<and>
   (\<forall>kvs p. map_of kvs ''sentiment_score'' = Some VNone \<and>
        process_record L (VDict kvs) = Inr p \<longrightarrow>
        (\<exists>t. py_getitem p ''feedback_text'' = Inr (VStr t) \<and>
             py_getitem p ''sentiment_score'' =
               Inr (VFloat (fst (calculate_sentiment_score t)))))"
proof (intro conjI allI impI)
  fix s records j c
  assume a: "parse_csv L s = Inr records \<and> j < length records \<and>
      map_of (fst (csv_DictReader L (split_lines (py_strip s))) ! j) ''sentiment_score'' = Some c \<and>
      (c = None \<or> c = Some [] \<or> (\<exists>t. c = Some t \<and> py_lower t = ''null''))"
  define rows where "rows = fst (csv_DictReader L (split_lines (py_strip s)))"
  from a have "csv_rows L rows = Inr records"
    unfolding rows_def by (simp add: parse_csv_Inr)
  from csv_rows_Inr [OF this] a have "csv_row L (rows ! j) = Inr (records ! j)"
    by simp
  moreover from a have "csv_row L (rows ! j) =
      Inr (VDict (dict_set (map (\<lambda>(k, c). (k, csv_cell c)) (rows ! j)) ''sentiment_score'' VNone))"
    unfolding rows_def by (intro csv_row_null [of _ c]) auto
  ultimately have r: "records ! j =
      VDict (dict_set (map (\<lambda>(k, c). (k, csv_cell c)) (rows ! j)) ''sentiment_score'' VNone)"
    by simp
  show "\<exists>kvs. records ! j = VDict kvs \<and> map_of kvs ''sentiment_score'' = Some VNone"
    by (rule exI, rule conjI, rule r, rule map_of_dict_set)
next
  fix s doc items records j kvs x
  assume a: "json_loads L s = Some (VDict doc) \<and> map_of doc ''feedbacks'' = Some (VList items) \<and>
      parse_json L s = Inr records \<and> j < length items \<and> items ! j = VDict kvs \<and>
      map_of kvs ''sentiment_score'' = Some x \<and> (x = VNone \<or> x = VStr ''null'')"
  then have "parse_json L s = mapE (json_record L) items"
    by (intro parse_json_Inr [of L s doc items]) auto
  with a have "mapE (json_record L) items = Inr records"
    by simp
  from mapE_Inr [OF this] a have "json_record L (VDict kvs) = Inr (records ! j)"
    by auto
  moreover from a have
    "json_record L (VDict kvs) = Inr (VDict (dict_set kvs ''sentiment_score'' VNone))"
    by (intro json_record_null_score [of _ x]) auto
  ultimately have r: "records ! j = VDict (dict_set kvs ''sentiment_score'' VNone)"
    by simp
  show "\<exists>kvs'. records ! j = VDict kvs' \<and> map_of kvs' ''sentiment_score'' = Some VNone"
    by (rule exI, rule conjI, rule r, rule map_of_dict_set)
next
  fix kvs n st
  assume "map_of kvs ''sentiment_score'' = Some VNone"
  then show "check_score L n (VDict kvs) st = Inr st"
    by (simp add: check_score_def item_if_present_dict bindE_Inr)
next
  fix kvs p
  assume a: "map_of kvs ''sentiment_score'' = Some VNone \<and> process_record L (VDict kvs) = Inr p"
  then obtain fid lang text0 lang2 ts utc sc where
    sc: "computed_score (translate_feedback L text0 lang2) = Inr sc" and
    p: "p = VDict [(''feedback_id'', fid), (''language'', lang),
                   (''feedback_text'', translate_feedback L text0 lang2),
                   (''timestamp'', VStr utc), (''sentiment_score'', VFloat sc)]"
    by (auto simp: process_record_def bindE_eq_Inr item_if_present_dict)
  from sc obtain t where
    t: "translate_feedback L text0 lang2 = VStr t" and
    s: "sc = fst (calculate_sentiment_score t)"
    by (cases "translate_feedback L text0 lang2")
       (auto simp: computed_score_def call_calculate_sentiment_score_def bindE_eq_Inr
          bindE_Inr bindE_Inl split: prod.splits)
  show "\<exists>t. py_getitem p ''feedback_text'' = Inr (VStr t) \<and>
           py_getitem p ''sentiment_score'' = Inr (VFloat (fst (calculate_sentiment_score t)))"
    using p t s by simp
qed

lemma null_score_record_processed:
  "process_record (py_lib 0) (VDict null_score_record) =
     Inr (VDict [(''feedback_id'', VStr ''FB1''), (''language'', VStr ''en''),
                 (''feedback_text'', VStr ''good service''),
                 (''timestamp'', VStr ''2023-03-21T08:00:00+00:00''),
                 (''sentiment_score'', VFloat (Fin (dec2 50)))])"
  by code_simp

lemma lower_NULL: "py_lower ''NULL'' = ''null''"
  by code_simp

lemma csv_null_score_rows:
  "fst (csv_DictReader (py_lib 0) (split_lines (py_strip csv_null_score))) = [csv_row_NULL]"
  by code_simp

lemma csv_null_score_decodes: "parse_csv (py_lib 0) csv_null_score = Inr [VDict null_score_record]"
  by code_simp

lemma json_null_score_loads:
  "json_loads (py_lib 0) json_null_score =
     Some (VDict [(''feedbacks'', VList [VDict json_record_null])])"
  by code_simp

lemma json_null_score_decodes:
  "parse_json (py_lib 0) json_null_score = Inr [VDict null_score_record]"
  by code_simp

text \<open>
  The cell \<open>NULL\<close> of a CSV text and the string \<open>null\<close> of a JSON text both decode to
  \<open>null_score_record\<close>, which passes the score check and gets the score 0.5 of its
  two tokens.
\<close>

lemma scores_that_are_normalised_example:
  "parse_csv (py_lib 0) csv_null_score = Inr [VDict null_score_record] \<and>
   parse_json (py_lib 0) json_null_score = Inr [VDict null_score_record] \<and>
   (\<exists>kvs. [VDict null_score_record] ! 0 = VDict kvs \<and>
          map_of kvs ''sentiment_score'' = Some VNone) \<and>
   check_score (py_lib 0) 1 (VDict null_score_record) (True, []) = Inr (True, []) \<and>
   (\<exists>t. py_getitem (VDict [(''feedback_id'', VStr ''FB1''), (''language'', VStr ''en''),
                 (''feedback_text'', VStr ''good service''),
                 (''timestamp'', VStr ''2023-03-21T08:00:00+00:00''),
                 (''sentiment_score'', VFloat (Fin (dec2 50)))]) ''sentiment_score'' =
          Inr (VFloat (fst (calculate_sentiment_score t))))"
proof -
  note t = scores_that_are_normalised [of "py_lib 0"]
  have r: "map_of (fst (csv_DictReader (py_lib 0) (split_lines (py_strip csv_null_score))) ! 0)
      ''sentiment_score'' = Some (Some ''NULL'')"
    by (simp add: csv_null_score_rows csv_row_NULL_def)
  have l: "(0::nat) < length [VDict null_score_record]"
    by simp
  from t csv_null_score_decodes l r lower_NULL have c1:
    "\<exists>kvs. [VDict null_score_record] ! 0 = VDict kvs \<and> map_of kvs ''sentiment_score'' = Some VNone"
    by blast
  have f: "map_of [(''feedbacks'', VList [VDict json_record_null])] ''feedbacks'' =
      Some (VList [VDict json_record_null])"
    by simp
  have i: "(0::nat) < length [VDict json_record_null]"
    "[VDict json_record_null] ! 0 = VDict json_record_null"
    by simp_all
  have j: "map_of json_record_null ''sentiment_score'' = Some (VStr ''null'')"
    by (simp add: json_record_null_def)
  from t json_null_score_loads f json_null_score_decodes i j have c2:
    "\<exists>kvs. [VDict null_score_record] ! 0 = VDict kvs \<and> map_of kvs ''sentiment_score'' = Some VNone"
    by blast
  have n: "map_of null_score_record ''sentiment_score'' = Some VNone"
    by (simp add: null_score_record_def)
  from t n have c3: "check_score (py_lib 0) 1 (VDict null_score_record) (True, []) = Inr (True, [])"
    by blast
  from t n null_score_record_processed have c4:
    "\<exists>t. py_getitem (VDict [(''feedback_id'', VStr ''FB1''), (''language'', VStr ''en''),
                 (''feedback_text'', VStr ''good service''),
                 (''timestamp'', VStr ''2023-03-21T08:00:00+00:00''),
                 (''sentiment_score'', VFloat (Fin (dec2 50)))]) ''feedback_text'' = Inr (VStr t) \<and>
         py_getitem (VDict [(''feedback_id'', VStr ''FB1''), (''language'', VStr ''en''),
                 (''feedback_text'', VStr ''good service''),
                 (''timestamp'', VStr ''2023-03-21T08:00:00+00:00''),
                 (''sentiment_score'', VFloat (Fin (dec2 50)))]) ''sentiment_score'' =
          Inr (VFloat (fst (calculate_sentiment_score t)))"
    by blast
  from csv_null_score_decodes json_null_score_decodes c1 c2 c3 c4 show ?thesis by blast
qed

text \<open>
  Claim C3 fails in \<open>parse_json\<close>. The CSV decoder turns the cell \<open>NULL\<close> into
  \<open>None\<close>, as it does the empty cell. The JSON decoder tests \<open>is None\<close> and
  \<open>== "null"\<close> only: the empty string stays in the record, and validation reports it
  as a score of the wrong type; the string \<open>NULL\<close> goes to \<open>float\<close>, whose exception
  ends the decoding, and \<open>process_data\<close> returns its message.
\<close>

theorem json_score_not_normalised:
  "parse_csv (py_lib 0) csv_null_score = Inr [VDict null_score_record] \<and>
   parse_json (py_lib 0) json_score_empty =
     Inr [VDict [(''feedback_id'', VStr ''F1''), (''language'', VStr ''en''),
                 (''feedback_text'', VStr ''good''), (''sentiment_score'', VStr []),
                 (''timestamp'', VStr ''2023-03-21T08:00:00Z'')]] \<and>
   process_data (py_lib 0) json_score_empty =
     Inr (validation_header 1 ''present'' ''valid'' ''valid'' ''valid'' ''invalid'' @
          score_type_message 1) \<and>
   parse_json (py_lib 0) json_score_NULL =
     Inl (ValueError (''could not convert string to float: '' @ [CHR 0x27] @ ''NULL'' @ [CHR 0x27])) \<and>
   process_data (py_lib 0) json_score_NULL =
     Inr (''could not convert string to float: '' @ [CHR 0x27] @ ''NULL'' @ [CHR 0x27])"
  by code_simp

section \<open>The payload of the detail report\<close>

text \<open>A processed record has the five keys in the order of the source, the score a float.\<close>

lemma process_record_form:
  assumes "process_record L r = Inr p"
  shows "\<exists>fid lang text utc sc.
     p = VDict [(''feedback_id'', fid), (''language'', lang), (''feedback_text'', text),
                (''timestamp'', VStr utc), (''sentiment_score'', VFloat sc)]"
  using assms by (auto simp: process_record_def bindE_eq_Inr)

text \<open>The loop body of \<open>parse_json\<close> leaves a processed record as it is.\<close>

lemma json_record_processed:
  "json_record L (VDict [(''feedback_id'', fid), (''language'', lang), (''feedback_text'', text),
                         (''timestamp'', VStr utc), (''sentiment_score'', VFloat sc)]) =
   Inr (VDict [(''feedback_id'', fid), (''language'', lang), (''feedback_text'', text),
               (''timestamp'', VStr utc), (''sentiment_score'', VFloat sc)])"
  by (simp add: json_record_def item_if_present_dict bindE_Inr)

lemma mapE_id: "(\<forall>x \<in> set xs. f x = Inr x) \<Longrightarrow> mapE f xs = Inr xs"
  by (induction xs) auto

lemma detail_report_payload:
  assumes "generate_detailed_report L data processed_data = Inr report"
  shows "\<exists>body. report =
     body @ payload_open @ json_dumps L (json_output processed_data) @ payload_close"
proof -
  from assms obtain blocks where
    "report = detail_header (length data) @ blocks @ payload_open @
              json_dumps L (json_output processed_data) @ payload_close"
    by (auto simp: generate_detailed_report_def bindE_eq_Inr)
  then have "report = (detail_header (length data) @ blocks) @ payload_open @
              json_dumps L (json_output processed_data) @ payload_close"
    by simp
  then show ?thesis by blast
qed

text \<open>
  Claim C9. Let \<open>processed_data\<close> be a batch that \<open>process_feedback\<close> returns. The
  detail report ends with the payload \<open>json.dumps({"feedbacks": processed_data},
  indent=2)\<close> between its two fences, and \<open>parse_json\<close> on that payload returns
  \<open>processed_data\<close>. The hypothesis on the library is that \<open>json.loads\<close> reads back
  what \<open>json.dumps\<close> wrote for this payload; the rest is the program's own: the
  decoder finds the \<open>feedbacks\<close> list and converts each score, a float already, to
  itself.
\<close>

theorem payload_round_trip:
  assumes pf: "process_feedback L data = Inr processed_data"
    and lib: "json_loads L (json_dumps L (json_output processed_data)) =
              Some (json_output processed_data)"
  shows "parse_json L (json_dumps L (json_output processed_data)) = Inr processed_data \<and>
         (\<forall>report. generate_detailed_report L data processed_data = Inr report \<longrightarrow>
            (\<exists>body. report = body @ payload_open @
                     json_dumps L (json_output processed_data) @ payload_close))"
proof
  have "\<forall>x \<in> set processed_data. json_record L x = Inr x"
  proof
    fix x assume "x \<in> set processed_data"
    then obtain i where i: "i < length processed_data" and x: "x = processed_data ! i"
      by (auto simp: in_set_conv_nth)
    from mapE_Inr [OF pf [unfolded process_feedback_def]] mapE_Inr [OF pf [unfolded process_feedback_def], THEN conjunct1] i
    have "process_record L (data ! i) = Inr (processed_data ! i)" by simp
    from process_record_form [OF this] x show "json_record L x = Inr x"
      by (auto simp: json_record_processed)
  qed
  then have "mapE (json_record L) processed_data = Inr processed_data" by (rule mapE_id)
  then show "parse_json L (json_dumps L (json_output processed_data)) = Inr processed_data"
    using lib by (simp add: parse_json_def json_output_def item_if_present_dict bindE_Inr)
next
  show "\<forall>report. generate_detailed_report L data processed_data = Inr report \<longrightarrow>
      (\<exists>body. report = body @ payload_open @
               json_dumps L (json_output processed_data) @ payload_close)"
    using detail_report_payload by blast
qed

lemma two_processed_reads_back:
  "json_loads (py_lib 0) (json_dumps (py_lib 0) (json_output two_processed)) =
     Some (json_output two_processed)"
  by code_simp

lemma two_records_report_returns:
  "(case generate_detailed_report (py_lib 0) two_records two_processed of
      Inl e \<Rightarrow> False | Inr report \<Rightarrow> True)"
  by code_simp

text \<open>The two processed records of the example are read back from their payload.\<close>

theorem payload_round_trip_witness:
  "parse_json (py_lib 0) (json_dumps (py_lib 0) (json_output two_processed)) = Inr two_processed \<and>
   (\<exists>report body. generate_detailed_report (py_lib 0) two_records two_processed = Inr report \<and>
      report = body @ payload_open @ json_dumps (py_lib 0) (json_output two_processed) @
               payload_close)"
proof -
  note t = payload_round_trip [OF two_records_processed two_processed_reads_back]
  from two_records_report_returns obtain report where
    r: "generate_detailed_report (py_lib 0) two_records two_processed = Inr report"
    by (auto split: sum.splits)
  with t show ?thesis by blast
qed

section \<open>Where the pipeline raises\<close>

text \<open>
  Claim C5 fails on the two examples of its own wording. For every library: the
  validator raises \<open>AttributeError\<close> on a record whose timestamp is a number, since
  \<open>.replace\<close> is called on it and the \<open>try\<close> catches \<open>ValueError\<close> and \<open>TypeError\<close>
  only; and the validation report raises \<open>TypeError\<close> on a record whose language is
  \<open>null\<close>, since its summary passes the value to \<open>re.match\<close> without the truth
  test that \<open>validate_data\<close> makes first.
\<close>

theorem validation_path_raises:
  "validate_data L [VDict numeric_timestamp_record] = Inl AttributeError \<and>
   (\<exists>errs. validate_data L [VDict null_language_record] = Inr (False, errs)) \<and>
   generate_validation_report L [VDict null_language_record] = Inl TypeError"
proof (intro conjI)
  show "validate_data L [VDict numeric_timestamp_record] = Inl AttributeError"
    by (simp add: validate_data_def validate_record_def check_missing_dict check_score_def
        check_language_def check_timestamp_def item_if_present_dict bindE_Inr bindE_Inl
        numeric_timestamp_record_def required_fields_def extend_Nil match_iso639_def is_az_def)
  have v: "\<exists>errs. validate_data L [VDict null_language_record] = Inr (False, errs)"
    by (cases "fromisoformat L (replace_Z ''2023-03-21T08:00:00Z'')")
       (simp_all add: validate_data_def validate_record_def check_missing_dict check_score_def
        check_language_def check_timestamp_def item_if_present_dict bindE_Inr
        null_language_record_def required_fields_def extend_def flag_def)
  then show "\<exists>errs. validate_data L [VDict null_language_record] = Inr (False, errs)" .
  from v obtain errs where "validate_data L [VDict null_language_record] = Inr (False, errs)"
    by blast
  then show "generate_validation_report L [VDict null_language_record] = Inl TypeError"
    by (simp add: generate_validation_report_def bindE_Inr bindE_Inl present_and_truthy_def
        item_if_present_dict null_language_record_def)
qed

text \<open>
  Claim C1 fails on both sides of the gate, by the same defect. A CSV row that stops
  after its first cell decodes, validation returns one message, and \<open>process_data\<close>
  raises \<open>TypeError\<close> where the claim has it return the validation report. A JSON
  record whose \<open>feedback_text\<close> is a number decodes and validates without a
  message, and \<open>process_data\<close> raises \<open>AttributeError\<close> where the claim has it return
  the detail report.
\<close>

theorem process_data_raises:
  "decode (py_lib 0) csv_short_row = Inr [VDict short_row_record] \<and>
   validate_data (py_lib 0) [VDict short_row_record] =
     Inr (False, [''ERROR: Missing required field(s): language, feedback_text, timestamp in row 1.'']) \<and>
   process_data (py_lib 0) csv_short_row = Inl TypeError \<and>
   decode (py_lib 0) json_numeric_text = Inr [VDict numeric_text_record] \<and>
   validate_data (py_lib 0) [VDict numeric_text_record] = Inr (True, []) \<and>
   process_data (py_lib 0) json_numeric_text = Inl AttributeError"
  by code_simp

section \<open>The host's time zone\<close>

text \<open>A timestamp that carries its offset is converted alike on every host.\<close>

lemma aware_timestamp_same_on_all_hosts:
  "dt_utcoffset dt = Some off \<Longrightarrow>
   astimezone_utc (py_lib a) dt = astimezone_utc (py_lib b) dt"
  by (simp add: py_lib_def ref_astimezone_utc_def)

lemma naive_timestamp_utc_host:
  "synchronize_timestamp (py_lib 0) (VStr ''2023-03-21T08:00:00'') =
     Inr ''2023-03-21T08:00:00+00:00''"
  by code_simp

lemma naive_timestamp_cet_host:
  "synchronize_timestamp (py_lib 3600) (VStr ''2023-03-21T08:00:00'') =
     Inr ''2023-03-21T07:00:00+00:00''"
  by code_simp

lemma naive_timestamp_reports_differ:
  "process_data (py_lib 0) csv_naive_timestamp \<noteq> process_data (py_lib 3600) csv_naive_timestamp"
  by code_simp

text \<open>
  Claim C10 fails on a timestamp without offset. It passes validation, and
  \<open>astimezone\<close> reads it as local time: a host on UTC and a host one hour east of
  UTC return different timestamps, and different reports, for the same input text.
\<close>

theorem naive_timestamp_depends_on_host:
  "synchronize_timestamp (py_lib 0) (VStr ''2023-03-21T08:00:00'') =
     Inr ''2023-03-21T08:00:00+00:00'' \<and>
   synchronize_timestamp (py_lib 3600) (VStr ''2023-03-21T08:00:00'') =
     Inr ''2023-03-21T07:00:00+00:00'' \<and>
   process_data (py_lib 0) csv_naive_timestamp \<noteq> process_data (py_lib 3600) csv_naive_timestamp"
  using naive_timestamp_utc_host naive_timestamp_cet_host naive_timestamp_reports_differ
  by simp

end
